theory Spec2Isabelle
  imports Complex_Main
begin

section \<open>JavaScript values\<close>

text \<open>
  A JavaScript number is NaN, one of the two infinities, or a finite double. A finite
  double denotes a real number, and the comparisons of the language compare the denoted
  reals exactly (the two zeros compare equal), so a finite number is modelled by the real
  it denotes.
\<close>

datatype jsnum = NaN | PosInf | NegInf | Fin real

text \<open>
  The values a request body can hold (the JSON values), and \<open>undefined\<close> for what a
  property read of a missing field gives. A string is a list of code units; a \<open>char\<close>
  stands for a code unit below 256. Arrays hold the text labels of the data model. An
  object value is the list of its own data properties, in the order in which
  \<open>Object.keys\<close> enumerates them; its prototype is \<open>Object.prototype\<close>, as for every
  object that \<open>JSON.parse\<close> builds.
\<close>

datatype jsval =
    JUndefined
  | JNull
  | JBool bool
  | JNum jsnum
  | JStr string
  | JArr "string list"
  | JObj "(string \<times> jsval) list"

type_synonym obj = "(string \<times> jsval) list"

text \<open>Errors: the only exception the functions modelled here can raise.\<close>

datatype error = TypeError

subsection \<open>Own properties\<close>

text \<open>The value of the own data property \<open>k\<close>, and \<open>undefined\<close> when there is none.
  This is \<open>ob[k]\<close> where \<open>k\<close> is an own key of \<open>ob\<close>, or a key that no prototype of
  \<open>ob\<close> defines.\<close>

definition getOwn :: "obj \<Rightarrow> string \<Rightarrow> jsval" where
  "getOwn ob k = (case map_of ob k of None \<Rightarrow> JUndefined | Some v \<Rightarrow> v)"

definition hasOwn :: "obj \<Rightarrow> string \<Rightarrow> bool" where
  "hasOwn ob k = (map_of ob k \<noteq> None)"

text \<open>\<open>Object.keys(ob)\<close>.\<close>

definition keys :: "obj \<Rightarrow> string list" where
  "keys ob = map fst ob"

text \<open>Writing an own data property: the value of an existing one is replaced in place,
  a new one comes after the others.\<close>

fun putOwn :: "obj \<Rightarrow> string \<Rightarrow> jsval \<Rightarrow> obj" where
  "putOwn [] k v = [(k, v)]"
| "putOwn ((k', v') # ob) k v = (if k' = k then (k, v) # ob else (k', v') # putOwn ob k v)"

subsection \<open>Objects with a prototype\<close>

text \<open>
  The objects that the validator and the engine are given: own data properties and a
  prototype. The prototype is \<open>Object.prototype\<close> for every object that \<open>JSON.parse\<close>
  or an object literal builds; the setter of \<open>__proto__\<close> can replace it by null, by an
  object value or by an array value.
\<close>

datatype proto = ObjectPrototype | NullPrototype | ObjectValue obj | ArrayValue "string list"

record jsobject =
  ownFields :: obj
  prototype :: proto

definition jsonObject :: "obj \<Rightarrow> jsobject" where
  "jsonObject fs = \<lparr> ownFields = fs, prototype = ObjectPrototype \<rparr>"

text \<open>
  The six fields of a student record that the code reads. Neither \<open>Object.prototype\<close> nor
  \<open>Array.prototype\<close> defines a property of one of these names, and none is an array
  index or \<open>length\<close>; so a read that finds no own property finds the own property of a
  prototype that is an object value, and \<open>undefined\<close> otherwise.
\<close>

datatype fieldName = FName | FPerformance | FSubject | FWeakAreas | FStrengths | FLearningStyle

fun keyOf :: "fieldName \<Rightarrow> string" where
  "keyOf FName = ''name''"
| "keyOf FPerformance = ''performance''"
| "keyOf FSubject = ''subject''"
| "keyOf FWeakAreas = ''weakAreas''"
| "keyOf FStrengths = ''strengths''"
| "keyOf FLearningStyle = ''learningStyle''"

definition readField :: "jsobject \<Rightarrow> fieldName \<Rightarrow> jsval" where
  "readField ob f =
     (case map_of (ownFields ob) (keyOf f) of
        Some v \<Rightarrow> v
      | None \<Rightarrow> (case prototype ob of ObjectValue fs \<Rightarrow> getOwn fs (keyOf f) | _ \<Rightarrow> JUndefined))"

text \<open>
  \<open>ob[k] = v\<close>. An own property is overwritten. Otherwise the key \<open>__proto__\<close> reaches
  the setter that \<open>Object.prototype\<close> defines, unless the prototype is null or an object
  value with an own data property of that name: the setter replaces the prototype when
  \<open>v\<close> is an object, an array or null and does nothing for any other value; no own
  property is made. In every other case the key becomes an own data property (the data
  properties of a prototype are writable).
\<close>

fun reachesProtoSetter :: "proto \<Rightarrow> bool" where
  "reachesProtoSetter ObjectPrototype = True"
| "reachesProtoSetter NullPrototype = False"
| "reachesProtoSetter (ObjectValue fs) = (\<not> hasOwn fs ''__proto__'')"
| "reachesProtoSetter (ArrayValue xs) = True"

definition setProperty :: "jsobject \<Rightarrow> string \<Rightarrow> jsval \<Rightarrow> jsobject" where
  "setProperty ob k v =
     (if hasOwn (ownFields ob) k then ob\<lparr> ownFields := putOwn (ownFields ob) k v \<rparr>
      else if k = ''__proto__'' \<and> reachesProtoSetter (prototype ob) then
        (case v of
           JObj fs \<Rightarrow> ob\<lparr> prototype := ObjectValue fs \<rparr>
         | JArr xs \<Rightarrow> ob\<lparr> prototype := ArrayValue xs \<rparr>
         | JNull \<Rightarrow> ob\<lparr> prototype := NullPrototype \<rparr>
         | _ \<Rightarrow> ob)
      else ob\<lparr> ownFields := putOwn (ownFields ob) k v \<rparr>)"

subsection \<open>Operators and conversions\<close>

text \<open>Truthiness (\<open>ToBoolean\<close>), as \<open>!x\<close>, \<open>x && y\<close> and \<open>x || y\<close> use it.\<close>

fun truthy :: "jsval \<Rightarrow> bool" where
  "truthy JUndefined = False"
| "truthy JNull = False"
| "truthy (JBool b) = b"
| "truthy (JNum n) = (n \<noteq> NaN \<and> n \<noteq> Fin 0)"
| "truthy (JStr s) = (s \<noteq> [])"
| "truthy (JArr xs) = True"
| "truthy (JObj fs) = True"

text \<open>\<open>typeof x\<close>.\<close>

fun typeof :: "jsval \<Rightarrow> string" where
  "typeof JUndefined = ''undefined''"
| "typeof JNull = ''object''"
| "typeof (JBool b) = ''boolean''"
| "typeof (JNum n) = ''number''"
| "typeof (JStr s) = ''string''"
| "typeof (JArr xs) = ''object''"
| "typeof (JObj fs) = ''object''"

text \<open>\<open>Array.isArray(x)\<close>.\<close>

fun isArray :: "jsval \<Rightarrow> bool" where
  "isArray (JArr xs) = True"
| "isArray v = False"

text \<open>\<open>xs.join(sep)\<close> on an array of strings.\<close>

fun join :: "string \<Rightarrow> string list \<Rightarrow> string" where
  "join sep [] = []"
| "join sep [x] = x"
| "join sep (x # y # ys) = x @ sep @ join sep (y # ys)"

text \<open>
  \<open>ToNumber\<close>, as \<open>Number(x)\<close> and a comparison with a number apply it. The reading of
  a string as a number (\<open>StringToNumber\<close>) is the host's; it is the parameter \<open>S\<close>. An
  array is first turned into its elements joined by commas. An object is turned into a
  primitive by its methods \<open>valueOf\<close> and \<open>toString\<close>: an own property of a JSON object
  is never callable, and the inherited \<open>valueOf\<close> returns the object; so the conversion
  fails when the object has an own property \<open>toString\<close>, and otherwise goes through the
  inherited \<open>toString\<close>, whose text is no number.
\<close>

fun toNumber :: "(string \<Rightarrow> jsnum) \<Rightarrow> jsval \<Rightarrow> error + jsnum" where
  "toNumber S JUndefined = Inr NaN"
| "toNumber S JNull = Inr (Fin 0)"
| "toNumber S (JBool b) = Inr (Fin (if b then 1 else 0))"
| "toNumber S (JNum n) = Inr n"
| "toNumber S (JStr s) = Inr (S s)"
| "toNumber S (JArr xs) = Inr (S (join '','' xs))"
| "toNumber S (JObj fs) = (if hasOwn fs ''toString'' then Inl TypeError else Inr NaN)"

text \<open>
  \<open>ToString\<close>, as a template literal and the replacement argument of
  \<open>String.prototype.replace\<close> apply it. The digits of a number are the host's; they are
  the parameter \<open>N\<close>. An object fails or gives the text of the inherited \<open>toString\<close>,
  as for \<open>ToNumber\<close>.
\<close>

fun toString :: "(jsnum \<Rightarrow> string) \<Rightarrow> jsval \<Rightarrow> error + string" where
  "toString N JUndefined = Inr ''undefined''"
| "toString N JNull = Inr ''null''"
| "toString N (JBool b) = Inr (if b then ''true'' else ''false'')"
| "toString N (JNum n) = Inr (N n)"
| "toString N (JStr s) = Inr s"
| "toString N (JArr xs) = Inr (join '','' xs)"
| "toString N (JObj fs) = (if hasOwn fs ''toString'' then Inl TypeError else Inr ''[object Object]'')"

text \<open>
  The comparison of two numbers (\<open>Number::lessThan\<close>): \<open>None\<close> stands for the
  undefined result that a NaN operand gives.
\<close>

fun numberLessThan :: "jsnum \<Rightarrow> jsnum \<Rightarrow> bool option" where
  "numberLessThan x y =
     (if x = NaN \<or> y = NaN then None
      else if x = y then Some False
      else if x = PosInf then Some False
      else if y = PosInf then Some True
      else if y = NegInf then Some False
      else if x = NegInf then Some True
      else (case (x, y) of (Fin a, Fin b) \<Rightarrow> Some (a < b) | _ \<Rightarrow> None))"

text \<open>\<open>x >= y\<close>, \<open>x < y\<close> and \<open>x > y\<close> on numbers: an undefined comparison is false.\<close>

definition js_ge :: "jsnum \<Rightarrow> jsnum \<Rightarrow> bool" where
  "js_ge x y = (numberLessThan x y = Some False)"

definition js_lt :: "jsnum \<Rightarrow> jsnum \<Rightarrow> bool" where
  "js_lt x y = (numberLessThan x y = Some True)"

definition js_gt :: "jsnum \<Rightarrow> jsnum \<Rightarrow> bool" where
  "js_gt x y = (numberLessThan y x = Some True)"

section \<open>The feedback engine (services/feedbackGenerator.js)\<close>

subsection \<open>Classification and templates\<close>

definition excellentTemplate :: string where
  "excellentTemplate =
     ''Outstanding work! {student} has demonstrated exceptional understanding of {topic}.''"

definition goodTemplate :: string where
  "goodTemplate =
     ''Good progress! {student} shows solid grasp of {topic} with room for improvement in {areas}.''"

definition needsImprovementTemplate :: string where
  "needsImprovementTemplate =
     ''{student} needs additional support in {topic}. Consider focusing on {recommendations}.''"

definition feedbackTemplates :: "(string \<times> string) list" where
  "feedbackTemplates =
     [(''excellent'', excellentTemplate),
      (''good'', goodTemplate),
      (''needsImprovement'', needsImprovementTemplate)]"

text \<open>\<open>performance >= 85\<close> and \<open>performance >= 70\<close> convert \<open>performance\<close> to a number;
  the conversion of an object can fail, and the first comparison then raises.\<close>

definition assessPerformance :: "(string \<Rightarrow> jsnum) \<Rightarrow> jsval \<Rightarrow> error + string" where
  "assessPerformance S performance =
     (case toNumber S performance of
        Inl e \<Rightarrow> Inl e
      | Inr n \<Rightarrow>
          Inr (if js_ge n (Fin 85) then ''excellent''
               else if js_ge n (Fin 70) then ''good''
               else ''needsImprovement''))"

text \<open>
  The names of the properties that \<open>Object.prototype\<close> defines, and what
  \<open>this.feedbackTemplates[level]\<close> gives: the text of an own entry of the table, the
  inherited property of that name (a function or an object, never a string), or
  \<open>undefined\<close>.
\<close>

definition objectPrototypeKeys :: "string list" where
  "objectPrototypeKeys =
     [''constructor'', ''__defineGetter__'', ''__defineSetter__'', ''hasOwnProperty'',
      ''__lookupGetter__'', ''__lookupSetter__'', ''isPrototypeOf'', ''propertyIsEnumerable'',
      ''toString'', ''valueOf'', ''__proto__'', ''toLocaleString'']"

datatype tableValue = TemplateText string | Inherited string | Missing

definition lookupTemplate :: "string \<Rightarrow> tableValue" where
  "lookupTemplate level =
     (case map_of feedbackTemplates level of
        Some t \<Rightarrow> TemplateText t
      | None \<Rightarrow> if level \<in> set objectPrototypeKeys then Inherited level else Missing)"

text \<open>
  \<open>this.feedbackTemplates[level] || this.feedbackTemplates.needsImprovement\<close>: the second
  operand is taken when the first is undefined or the empty string; an inherited
  property is truthy.
\<close>

definition getBaseTemplate :: "string \<Rightarrow> tableValue" where
  "getBaseTemplate level =
     (case lookupTemplate level of
        TemplateText t \<Rightarrow>
          if t \<noteq> [] then TemplateText t else TemplateText needsImprovementTemplate
      | Inherited k \<Rightarrow> Inherited k
      | Missing \<Rightarrow> TemplateText needsImprovementTemplate)"

subsection \<open>Strings: search and replace\<close>

fun startsWith :: "string \<Rightarrow> string \<Rightarrow> bool" where
  "startsWith s [] = True"
| "startsWith [] (p # ps) = False"
| "startsWith (c # cs) (p # ps) = (c = p \<and> startsWith cs ps)"

text \<open>The position of the first occurrence of \<open>pat\<close> in \<open>s\<close>; \<open>None\<close> when there is none.\<close>

fun indexOf :: "string \<Rightarrow> string \<Rightarrow> nat option" where
  "indexOf [] pat = (if pat = [] then Some 0 else None)"
| "indexOf (c # cs) pat =
     (if startsWith (c # cs) pat then Some 0 else map_option Suc (indexOf cs pat))"

text \<open>\<open>s.includes(pat)\<close>.\<close>

definition includesStr :: "string \<Rightarrow> string \<Rightarrow> bool" where
  "includesStr s pat = (indexOf s pat \<noteq> None)"

text \<open>
  \<open>GetSubstitution\<close> for a string pattern: in the replacement text, \<open>$$\<close> stands for a
  dollar sign, \<open>$&\<close> for the matched text, \<open>$`\<close> for the text before the match and
  \<open>$'\<close> for the text after it. A string pattern has no captures, so every other dollar
  sign stands for itself.
\<close>

fun getSubstitution :: "string \<Rightarrow> string \<Rightarrow> string \<Rightarrow> string \<Rightarrow> string" where
  "getSubstitution matched pre post (c # d # r) =
     (if c = CHR ''$'' then
        (if d = CHR ''$'' then CHR ''$'' # getSubstitution matched pre post r
         else if d = CHR ''&'' then matched @ getSubstitution matched pre post r
         else if d = CHR 0x60 then pre @ getSubstitution matched pre post r
         else if d = CHR 0x27 then post @ getSubstitution matched pre post r
         else c # getSubstitution matched pre post (d # r))
      else c # getSubstitution matched pre post (d # r))"
| "getSubstitution matched pre post r = r"

text \<open>\<open>s.replace(pat, repl)\<close> with a string pattern and a replacement that is already a
  string: the first occurrence only.\<close>

definition replaceFirst :: "string \<Rightarrow> string \<Rightarrow> string \<Rightarrow> string" where
  "replaceFirst s pat repl =
     (case indexOf s pat of
        None \<Rightarrow> s
      | Some pos \<Rightarrow>
          (let pre = take pos s; post = drop (pos + length pat) s
           in pre @ getSubstitution pat pre post repl @ post))"

text \<open>\<open>x?.join(sep)\<close>: undefined (\<open>None\<close>) on undefined and null, the joined string on
  an array, and a TypeError on every other value, which has no callable \<open>join\<close>.\<close>

fun optJoin :: "jsval \<Rightarrow> string \<Rightarrow> error + string option" where
  "optJoin JUndefined sep = Inr None"
| "optJoin JNull sep = Inr None"
| "optJoin (JArr xs) sep = Inr (Some (join sep xs))"
| "optJoin v sep = Inl TypeError"

text \<open>\<open>x || d\<close> for \<open>x\<close> undefined or a string: \<open>d\<close> unless \<open>x\<close> is a non-empty string.\<close>

fun orDefault :: "string option \<Rightarrow> string \<Rightarrow> string" where
  "orDefault None d = d"
| "orDefault (Some s) d = (if s \<noteq> [] then s else d)"

text \<open>\<open>x.length\<close> of a value that is neither undefined nor null. No prototype of an
  object value, a boolean or a number defines \<open>length\<close>.\<close>

fun lengthOf :: "jsval \<Rightarrow> jsval" where
  "lengthOf (JStr s) = JNum (Fin (real (length s)))"
| "lengthOf (JArr xs) = JNum (Fin (real (length xs)))"
| "lengthOf (JObj fs) = getOwn fs ''length''"
| "lengthOf v = JUndefined"

text \<open>\<open>x && x.length > 0\<close>: the comparison converts the length to a number.\<close>

definition hasEntries :: "(string \<Rightarrow> jsnum) \<Rightarrow> jsval \<Rightarrow> error + bool" where
  "hasEntries S x =
     (if \<not> truthy x then Inr False
      else (case toNumber S (lengthOf x) of
              Inl e \<Rightarrow> Inl e
            | Inr n \<Rightarrow> Inr (js_gt n (Fin 0))))"

text \<open>\<open>x.slice(0, 2).join(sep)\<close> and \<open>x.join(sep)\<close>: only an array has both methods.\<close>

fun sliceJoin :: "jsval \<Rightarrow> string \<Rightarrow> error + string" where
  "sliceJoin (JArr xs) sep = Inr (join sep (take 2 xs))"
| "sliceJoin v sep = Inl TypeError"

fun joinOf :: "jsval \<Rightarrow> string \<Rightarrow> error + string" where
  "joinOf (JArr xs) sep = Inr (join sep xs)"
| "joinOf v sep = Inl TypeError"

subsection \<open>Rendering, recommendations, next steps\<close>

text \<open>
  \<open>personalizeFeedback\<close> on a template that is a string. Each round converts
  \<open>data[key]\<close> to a string, which can fail, and replaces the first occurrence of the
  key between braces; a failure ends the loop.
\<close>

definition personalizeFeedback ::
  "(jsnum \<Rightarrow> string) \<Rightarrow> string \<Rightarrow> obj \<Rightarrow> error + string" where
  "personalizeFeedback N template data =
     fold (\<lambda>key acc.
             case acc of
               Inl e \<Rightarrow> Inl e
             | Inr personalizedFeedback \<Rightarrow>
                 (case toString N (getOwn data key) of
                    Inl e \<Rightarrow> Inl e
                  | Inr repl \<Rightarrow>
                      Inr (replaceFirst personalizedFeedback (''{'' @ key @ ''}'') repl)))
          (keys data) (Inr template)"

definition generateRecommendations :: "jsval \<Rightarrow> jsval \<Rightarrow> error + string" where
  "generateRecommendations weakAreas strengths =
     (if \<not> truthy weakAreas \<or> lengthOf weakAreas = JNum (Fin 0)
      then Inr ''Continue building on current strengths''
      else
        (case sliceJoin weakAreas '' and '' of
           Inl e \<Rightarrow> Inl e
         | Inr focus \<Rightarrow>
             (case optJoin strengths '' and '' of
                Inl e \<Rightarrow> Inl e
              | Inr joined \<Rightarrow>
                  Inr (''Focus on '' @ focus @ '' while leveraging strengths in ''
                       @ orDefault joined ''identified areas''))))"

text \<open>The object literal that \<open>generateFeedback\<close> passes to \<open>personalizeFeedback\<close>; its
  fields are evaluated in the order written.\<close>

definition feedbackData :: "jsobject \<Rightarrow> error + obj" where
  "feedbackData studentData =
     (case optJoin (readField studentData FWeakAreas) '', '' of
        Inl e \<Rightarrow> Inl e
      | Inr joined \<Rightarrow>
          (case generateRecommendations (readField studentData FWeakAreas)
                  (readField studentData FStrengths) of
             Inl e \<Rightarrow> Inl e
           | Inr recs \<Rightarrow>
               Inr [(''student'', readField studentData FName),
                    (''topic'', readField studentData FSubject),
                    (''areas'', JStr (orDefault joined ''general concepts'')),
                    (''recommendations'', JStr recs)]))"

definition generateDetailedRecommendations ::
  "(string \<Rightarrow> jsnum) \<Rightarrow> (jsnum \<Rightarrow> string) \<Rightarrow> jsobject \<Rightarrow> error + string list" where
  "generateDetailedRecommendations S N studentData =
     (let weakAreas = readField studentData FWeakAreas;
          strengths = readField studentData FStrengths;
          learningStyle = readField studentData FLearningStyle
      in
        (case (case hasEntries S weakAreas of
                 Inl e \<Rightarrow> Inl e
               | Inr c \<Rightarrow>
                   if c then map_sum id (\<lambda>j. [''Target improvement areas: '' @ j])
                               (joinOf weakAreas '', '')
                   else Inr []) of
           Inl e \<Rightarrow> Inl e
         | Inr recs1 \<Rightarrow>
             (case (case hasEntries S strengths of
                      Inl e \<Rightarrow> Inl e
                    | Inr c \<Rightarrow>
                        if c then map_sum id (\<lambda>j. recs1 @ [''Build upon strengths: '' @ j])
                                    (joinOf strengths '', '')
                        else Inr recs1) of
                Inl e \<Rightarrow> Inl e
              | Inr recs2 \<Rightarrow>
                  if truthy learningStyle
                  then map_sum id
                         (\<lambda>t. recs2 @ [''Adapt teaching methods for '' @ t @ '' learning style''])
                         (toString N learningStyle)
                  else Inr recs2)))"

definition generateNextSteps :: "(string \<Rightarrow> jsnum) \<Rightarrow> string \<Rightarrow> jsval \<Rightarrow> error + string list" where
  "generateNextSteps S performanceLevel weakAreas =
     (if performanceLevel = ''excellent'' then
        Inr [''Explore advanced topics and challenges'',
             ''Consider peer tutoring opportunities'']
      else if performanceLevel = ''good'' then
        Inr [''Practice additional exercises in identified areas'',
             ''Seek clarification on challenging concepts'']
      else if performanceLevel = ''needsImprovement'' then
        (case hasEntries S weakAreas of
           Inl e \<Rightarrow> Inl e
         | Inr c \<Rightarrow>
             if c then
               map_sum id
                 (\<lambda>j. [''Schedule additional support sessions'', ''Review fundamental concepts'',
                        ''Focus specifically on: '' @ j])
                 (sliceJoin weakAreas '' and '')
             else Inr [''Schedule additional support sessions'',
                       ''Review fundamental concepts''])
      else Inr [])"

record feedbackResult =
  studentName :: jsval
  subject :: jsval
  performanceLevel :: string
  feedback :: string
  recommendations :: "string list"
  nextSteps :: "string list"
  timestamp :: string

text \<open>
  \<open>generateFeedback\<close>. The instant read from the clock is the parameter \<open>now\<close>. The
  criteria are a parameter that the body never reads; its type is left open. A base
  template that is an inherited property has no method \<open>replace\<close>, and the call of it
  in \<open>personalizeFeedback\<close> raises.
\<close>

definition generateFeedback ::
  "(string \<Rightarrow> jsnum) \<Rightarrow> (jsnum \<Rightarrow> string) \<Rightarrow> string \<Rightarrow> jsobject \<Rightarrow> 'c
     \<Rightarrow> error + feedbackResult" where
  "generateFeedback S N now studentData criteria =
     (let name = readField studentData FName;
          performance = readField studentData FPerformance;
          subj = readField studentData FSubject;
          weakAreas = readField studentData FWeakAreas
      in
        (case assessPerformance S performance of
           Inl e \<Rightarrow> Inl e
         | Inr level \<Rightarrow>
             (case feedbackData studentData of
                Inl e \<Rightarrow> Inl e
              | Inr data \<Rightarrow>
                  (case (case getBaseTemplate level of
                           TemplateText template \<Rightarrow> personalizeFeedback N template data
                         | _ \<Rightarrow> Inl TypeError) of
                     Inl e \<Rightarrow> Inl e
                   | Inr text \<Rightarrow>
                       (case generateDetailedRecommendations S N studentData of
                          Inl e \<Rightarrow> Inl e
                        | Inr detailed \<Rightarrow>
                            (case generateNextSteps S level weakAreas of
                               Inl e \<Rightarrow> Inl e
                             | Inr steps \<Rightarrow>
                                 Inr \<lparr> studentName = name,
                                       subject = subj,
                                       performanceLevel = level,
                                       feedback = text,
                                       recommendations = detailed,
                                       nextSteps = steps,
                                       timestamp = now \<rparr>))))))"

text \<open>The placeholder names of the templates, and whether a rendered text still holds
  one of them between braces.\<close>

definition placeholders :: "string list" where
  "placeholders = [''student'', ''topic'', ''areas'', ''recommendations'']"

definition hasUnresolvedPlaceholder :: "string \<Rightarrow> bool" where
  "hasUnresolvedPlaceholder text =
     list_ex (\<lambda>key. includesStr text (''{'' @ key @ ''}'')) placeholders"

section \<open>The validator (utils/validator.js)\<close>

record validation =
  isValid :: bool
  errors :: "string list"

definition required :: "fieldName list" where
  "required = [FName, FPerformance, FSubject]"

text \<open>\<open>if (c) errors.push(msg)\<close>, as a function of the list of errors so far.\<close>

definition pushIf :: "bool \<Rightarrow> string \<Rightarrow> string list \<Rightarrow> string list" where
  "pushIf c msg errs = (if c then errs @ [msg] else errs)"

text \<open>\<open>Number(studentData.performance)\<close> can fail; the function then raises, and
  returns no verdict.\<close>

definition validateStudentData :: "(string \<Rightarrow> jsnum) \<Rightarrow> jsobject \<Rightarrow> error + validation" where
  "validateStudentData S studentData =
     (let errs1 = fold (\<lambda>field errs.
                          pushIf (\<not> truthy (readField studentData field))
                            (keyOf field @ '' is required'') errs)
                    required []
      in
        (case (if readField studentData FPerformance \<noteq> JUndefined then
                 (case toNumber S (readField studentData FPerformance) of
                    Inl e \<Rightarrow> Inl e
                  | Inr performance \<Rightarrow>
                      Inr (pushIf (performance = NaN \<or> js_lt performance (Fin 0)
                                   \<or> js_gt performance (Fin 100))
                             ''Performance must be a number between 0 and 100'' errs1))
               else Inr errs1) of
           Inl e \<Rightarrow> Inl e
         | Inr errs2 \<Rightarrow>
             (let errs3 = pushIf (truthy (readField studentData FName)
                                  \<and> typeof (readField studentData FName) \<noteq> ''string'')
                            ''Name must be a string'' errs2;
                  errs4 = pushIf (truthy (readField studentData FSubject)
                                  \<and> typeof (readField studentData FSubject) \<noteq> ''string'')
                            ''Subject must be a string'' errs3;
                  errs5 = pushIf (truthy (readField studentData FWeakAreas)
                                  \<and> \<not> isArray (readField studentData FWeakAreas))
                            ''Weak areas must be an array'' errs4;
                  errs6 = pushIf (truthy (readField studentData FStrengths)
                                  \<and> \<not> isArray (readField studentData FStrengths))
                            ''Strengths must be an array'' errs5
              in Inr \<lparr> isValid = (length errs6 = 0), errors = errs6 \<rparr>)))"

subsection \<open>Sanitizing\<close>

text \<open>The white space that \<open>trim\<close> removes, among the code units below 256: tab, line
  feed, vertical tab, form feed, carriage return, space and no-break space.\<close>

definition isWhiteSpace :: "char \<Rightarrow> bool" where
  "isWhiteSpace c =
     (c = CHR 0x09 \<or> c = CHR 0x0A \<or> c = CHR 0x0B \<or> c = CHR 0x0C \<or> c = CHR 0x0D
      \<or> c = CHR 0x20 \<or> c = CHR 0xA0)"

definition trim :: "string \<Rightarrow> string" where
  "trim s = rev (dropWhile isWhiteSpace (rev (dropWhile isWhiteSpace s)))"

text \<open>\<open>s.replace(/[<>]/g, '')\<close>.\<close>

definition stripAngle :: "string \<Rightarrow> string" where
  "stripAngle s = filter (\<lambda>c. c \<noteq> CHR ''<'' \<and> c \<noteq> CHR ''>'') s"

text \<open>What the body of the loop assigns for a field value.\<close>

definition sanitizeValue :: "jsval \<Rightarrow> jsval" where
  "sanitizeValue v =
     (if typeof v = ''string''
      then (case v of JStr s \<Rightarrow> JStr (stripAngle (trim s)) | _ \<Rightarrow> v)
      else v)"

text \<open>
  Objects live in a store, a list of objects addressed by position, so that what
  \<open>sanitizeInput\<close> writes, and where, is part of the model. The function allocates the
  object \<open>sanitized\<close>, then for each own key of \<open>data\<close> reads \<open>data[key]\<close> from the
  store and assigns \<open>sanitized[key]\<close> in it; it returns the reference to \<open>sanitized\<close>
  and the store.
\<close>

type_synonym heap = "jsobject list"

definition sanitizeInput :: "heap \<Rightarrow> nat \<Rightarrow> nat \<times> heap" where
  "sanitizeInput h data =
     (let sanitized = length h;
          h0 = h @ [jsonObject []]
      in (sanitized,
          fold (\<lambda>key hp. hp[sanitized := setProperty (hp ! sanitized) key
                                            (sanitizeValue (getOwn (ownFields (hp ! data)) key))])
               (keys (ownFields (h0 ! data))) h0))"

text \<open>The object that \<open>sanitizeInput\<close> builds from the object \<open>data\<close>.\<close>

definition sanitizedObject :: "jsobject \<Rightarrow> jsobject" where
  "sanitizedObject data =
     fold (\<lambda>key sanitized. setProperty sanitized key (sanitizeValue (getOwn (ownFields data) key)))
          (keys (ownFields data)) (jsonObject [])"

section \<open>Predicates on records, and the specification's wording for comparison\<close>

text \<open>An optional sequence that is undefined, null or an array: the values on which the
  engine's optional calls do not fail.\<close>

definition absentOrArray :: "jsval \<Rightarrow> bool" where
  "absentOrArray v = (v = JUndefined \<or> v = JNull \<or> isArray v)"

text \<open>A value whose conversion to a string or to a number does not fail.\<close>

fun convertible :: "jsval \<Rightarrow> bool" where
  "convertible (JObj fs) = (\<not> hasOwn fs ''toString'')"
| "convertible v = True"

text \<open>The short-form recommendation as the specification words it: the fixed sentence
  when there are no weak areas; otherwise the first two weak areas joined by \<open>and\<close>, then
  the strengths joined by \<open>and\<close>, or \<open>identified areas\<close> if there are no strengths.\<close>

definition specRecommendations :: "string list \<Rightarrow> string list \<Rightarrow> string" where
  "specRecommendations weakAreas strengths =
     (if weakAreas = [] then ''Continue building on current strengths''
      else ''Focus on '' @ join '' and '' (take 2 weakAreas)
           @ '' while leveraging strengths in ''
           @ (if strengths = [] then ''identified areas'' else join '' and '' strengths))"

text \<open>The binding of the slot \<open>areas\<close> as the specification words it: the weak areas
  joined by a comma and a space, or \<open>general concepts\<close> if there are none.\<close>

definition specAreas :: "string list \<Rightarrow> string" where
  "specAreas weakAreas =
     (if weakAreas = [] then ''general concepts'' else join '', '' weakAreas)"

text \<open>The lines that the checks of \<open>validateStudentData\<close> contribute, in the order of
  the checks, for a score that converts to the number \<open>p\<close>; used to state what the
  validator returns.\<close>

definition validationErrors :: "jsobject \<Rightarrow> jsnum \<Rightarrow> string list" where
  "validationErrors sd p =
     (if \<not> truthy (readField sd FName) then [''name is required''] else [])
     @ (if \<not> truthy (readField sd FPerformance) then [''performance is required''] else [])
     @ (if \<not> truthy (readField sd FSubject) then [''subject is required''] else [])
     @ (if readField sd FPerformance \<noteq> JUndefined
           \<and> (p = NaN \<or> js_lt p (Fin 0) \<or> js_gt p (Fin 100))
        then [''Performance must be a number between 0 and 100''] else [])
     @ (if truthy (readField sd FName) \<and> typeof (readField sd FName) \<noteq> ''string''
        then [''Name must be a string''] else [])
     @ (if truthy (readField sd FSubject) \<and> typeof (readField sd FSubject) \<noteq> ''string''
        then [''Subject must be a string''] else [])
     @ (if truthy (readField sd FWeakAreas) \<and> \<not> isArray (readField sd FWeakAreas)
        then [''Weak areas must be an array''] else [])
     @ (if truthy (readField sd FStrengths) \<and> \<not> isArray (readField sd FStrengths)
        then [''Strengths must be an array''] else [])"

text \<open>Text without an opening brace and without a dollar sign, and a field value made
  of such text: replacing a placeholder by it can neither bring a placeholder in nor
  call for a substitution pattern.\<close>

definition plain :: "string \<Rightarrow> bool" where
  "plain s = (CHR ''{'' \<notin> set s \<and> CHR ''$'' \<notin> set s)"

fun plainValue :: "jsval \<Rightarrow> bool" where
  "plainValue (JStr s) = plain s"
| "plainValue (JArr xs) = list_all plain xs"
| "plainValue v = True"

section \<open>The records of the test suite (tests/feedbackGenerator.test.js)\<close>

definition johnDoe :: jsobject where
  "johnDoe = jsonObject
     [(''name'', JStr ''John Doe''), (''performance'', JNum (Fin 90)),
      (''subject'', JStr ''Mathematics''), (''weakAreas'', JArr []),
      (''strengths'', JArr [''Problem solving'', ''Analytical thinking''])]"

definition janeSmith :: jsobject where
  "janeSmith = jsonObject
     [(''name'', JStr ''Jane Smith''), (''performance'', JNum (Fin 75)),
      (''subject'', JStr ''Science''), (''weakAreas'', JArr [''Lab procedures'']),
      (''strengths'', JArr [''Theory understanding''])]"

definition bobJohnson :: jsobject where
  "bobJohnson = jsonObject
     [(''name'', JStr ''Bob Johnson''), (''performance'', JNum (Fin 60)),
      (''subject'', JStr ''English''), (''weakAreas'', JArr [''Grammar'', ''Vocabulary'']),
      (''strengths'', JArr [''Creative writing''])]"

section \<open>Properties\<close>

subsection \<open>Objects, reads and joins\<close>

lemma getOwn_Nil: "getOwn [] k = JUndefined"
  by (simp add: getOwn_def)

lemma getOwn_Cons: "getOwn ((k', v) # ob) k = (if k' = k then v else getOwn ob k)"
  by (simp add: getOwn_def)

lemma hasOwn_Nil: "hasOwn [] k = False"
  by (simp add: hasOwn_def)

lemma hasOwn_Cons: "hasOwn ((k', v) # ob) k = (k' = k \<or> hasOwn ob k)"
  by (auto simp: hasOwn_def)

lemma hasOwn_keys: "hasOwn ob k = (k \<in> set (keys ob))"
  by (induction ob) (auto simp: hasOwn_Nil hasOwn_Cons keys_def)

lemma readField_jsonObject: "readField (jsonObject fs) f = getOwn fs (keyOf f)"
  by (simp add: readField_def jsonObject_def getOwn_def split: option.splits)

lemma join_empty_iff: "sep \<noteq> [] \<Longrightarrow> (join sep xs = [] \<longleftrightarrow> xs = [] \<or> xs = [[]])"
  by (induction sep xs rule: join.induct) auto

lemma getOwn_putOwn: "getOwn (putOwn ob k v) k' = (if k = k' then v else getOwn ob k')"
  by (induction ob k v rule: putOwn.induct) (auto simp: getOwn_Cons getOwn_Nil)

lemma keys_putOwn:
  "keys (putOwn ob k v) = (if k \<in> set (keys ob) then keys ob else keys ob @ [k])"
  by (induction ob k v rule: putOwn.induct) (auto simp: keys_def)

lemma getOwn_absent: "k \<notin> set (keys ob) \<Longrightarrow> getOwn ob k = JUndefined"
  by (induction ob) (auto simp: keys_def getOwn_Cons getOwn_Nil)

lemma isArray_iff: "isArray v = (\<exists>xs. v = JArr xs)"
  by (cases v) simp_all

lemma absentOrArray_cases:
  assumes "absentOrArray v"
  obtains "v = JUndefined" | "v = JNull" | xs where "v = JArr xs"
  using assms by (auto simp: absentOrArray_def isArray_iff)

lemma convertible_toNumber: "convertible v \<Longrightarrow> \<exists>n. toNumber S v = Inr n"
  by (cases v) simp_all

lemma convertible_toString: "convertible v \<Longrightarrow> \<exists>t. toString N v = Inr t"
  by (cases v) simp_all

subsection \<open>Classification\<close>

lemma js_ge_Fin: "js_ge (Fin a) (Fin b) = (b \<le> a)"
  by (auto simp: js_ge_def)

lemma js_lt_Fin: "js_lt (Fin a) (Fin b) = (a < b)"
  by (auto simp: js_lt_def)

lemma js_gt_Fin: "js_gt (Fin a) (Fin b) = (b < a)"
  by (auto simp: js_gt_def)

lemma assessPerformance_Fin:
  "assessPerformance S (JNum (Fin x)) =
     Inr (if 85 \<le> x then ''excellent'' else if 70 \<le> x then ''good'' else ''needsImprovement'')"
  by (simp add: assessPerformance_def js_ge_Fin)

lemma assessPerformance_cases:
  "assessPerformance S v = Inr l \<Longrightarrow>
   l = ''excellent'' \<or> l = ''good'' \<or> l = ''needsImprovement''"
  by (auto simp: assessPerformance_def split: sum.splits if_splits)

lemma assessPerformance_convertible:
  "convertible v \<Longrightarrow> \<exists>l. assessPerformance S v = Inr l"
  using convertible_toNumber [of v S] by (auto simp: assessPerformance_def)

lemma lookupTemplate_levels:
  "lookupTemplate ''excellent'' = TemplateText excellentTemplate"
  "lookupTemplate ''good'' = TemplateText goodTemplate"
  "lookupTemplate ''needsImprovement'' = TemplateText needsImprovementTemplate"
  by (simp_all add: lookupTemplate_def feedbackTemplates_def)

lemma templates_nonempty:
  "excellentTemplate \<noteq> []" "goodTemplate \<noteq> []" "needsImprovementTemplate \<noteq> []"
  by (simp_all add: excellentTemplate_def goodTemplate_def needsImprovementTemplate_def)

lemma getBaseTemplate_levels:
  "getBaseTemplate ''excellent'' = TemplateText excellentTemplate"
  "getBaseTemplate ''good'' = TemplateText goodTemplate"
  "getBaseTemplate ''needsImprovement'' = TemplateText needsImprovementTemplate"
  by (simp_all add: getBaseTemplate_def lookupTemplate_levels templates_nonempty)

text \<open>A name that the table does not hold and \<open>Object.prototype\<close> defines gives the
  inherited property, not a template.\<close>

lemma getBaseTemplate_inherited: "getBaseTemplate ''constructor'' = Inherited ''constructor''"
  by (simp add: getBaseTemplate_def lookupTemplate_def feedbackTemplates_def
        objectPrototypeKeys_def)

text \<open>
  Claim C1. On every score in the range 0 to 100, \<open>assessPerformance\<close> returns, and is
  the three-way step function: 85 and above is excellent, 70 up to (not including) 85 is
  good, below 70 is needsImprovement; the boundary scores 85 and 70 belong to the higher
  tier.
\<close>

theorem assessPerformance_step:
  assumes "0 \<le> x" and "x \<le> 100"
  shows "(85 \<le> x \<longrightarrow> assessPerformance S (JNum (Fin x)) = Inr ''excellent'')
       \<and> (70 \<le> x \<and> x < 85 \<longrightarrow> assessPerformance S (JNum (Fin x)) = Inr ''good'')
       \<and> (x < 70 \<longrightarrow> assessPerformance S (JNum (Fin x)) = Inr ''needsImprovement'')
       \<and> assessPerformance S (JNum (Fin 85)) = Inr ''excellent''
       \<and> assessPerformance S (JNum (Fin 70)) = Inr ''good''"
  by (simp add: assessPerformance_Fin)

theorem assessPerformance_step_witness:
  "(0::real) \<le> 84.999 \<and> (84.999::real) \<le> 100
   \<and> assessPerformance (\<lambda>s. NaN) (JNum (Fin 84.999)) = Inr ''good''"
  using assessPerformance_step [of "84.999" "\<lambda>s. NaN"] by simp

text \<open>
  Claim C10. On every number whatsoever (NaN, the infinities, negative scores and scores
  above 100 included) \<open>assessPerformance\<close> does not fail and returns one of the three
  level names. NaN and every number below 70 give needsImprovement. The template table
  has a non-empty own entry for the level returned, so \<open>getBaseTemplate\<close> returns that
  entry and not through its fallback.
\<close>

theorem assessPerformance_total:
  "\<exists>l. assessPerformance S (JNum n) = Inr l
      \<and> l \<in> {''excellent'', ''good'', ''needsImprovement''}
      \<and> (n = NaN \<or> js_lt n (Fin 70) \<longrightarrow> l = ''needsImprovement'')
      \<and> (\<exists>t. lookupTemplate l = TemplateText t \<and> t \<noteq> [] \<and> getBaseTemplate l = TemplateText t)"
proof -
  obtain l where l: "assessPerformance S (JNum n) = Inr l"
    by (simp add: assessPerformance_def)
  have a: "l \<in> {''excellent'', ''good'', ''needsImprovement''}"
    using assessPerformance_cases [OF l] by auto
  have b: "n = NaN \<or> js_lt n (Fin 70) \<longrightarrow> l = ''needsImprovement''"
    using l by (cases n) (auto simp: assessPerformance_def js_ge_def js_lt_def)
  have c: "\<exists>t. lookupTemplate l = TemplateText t \<and> t \<noteq> [] \<and> getBaseTemplate l = TemplateText t"
    using assessPerformance_cases [OF l]
    by (auto simp: lookupTemplate_levels templates_nonempty getBaseTemplate_levels)
  from l a b c show ?thesis by blast
qed

theorem assessPerformance_total_witness:
  "assessPerformance (\<lambda>s. NaN) (JNum NaN) = Inr ''needsImprovement''
   \<and> assessPerformance (\<lambda>s. NaN) (JNum NegInf) = Inr ''needsImprovement''
   \<and> getBaseTemplate ''needsImprovement'' = TemplateText needsImprovementTemplate"
proof -
  have "js_lt NegInf (Fin 70)" by (simp add: js_lt_def)
  then show ?thesis
    using assessPerformance_total [of "\<lambda>s. NaN" NaN]
      assessPerformance_total [of "\<lambda>s. NaN" NegInf]
    by (auto simp: lookupTemplate_levels)
qed

subsection \<open>Validation of a student record\<close>

lemma pushIf_append: "pushIf c msg errs = errs @ (if c then [msg] else [])"
  by (simp add: pushIf_def)

lemma validateStudentData_result:
  assumes "toNumber S (readField sd FPerformance) = Inr p"
  shows "validateStudentData S sd =
     Inr \<lparr> isValid = (validationErrors sd p = []), errors = validationErrors sd p \<rparr>"
  using assms
  unfolding validateStudentData_def validationErrors_def Let_def required_def pushIf_append
  by simp

text \<open>A record with a non-empty name and subject, a score above 0 and up to 100, and
  optional sequences that are falsy or arrays is valid, with no error.\<close>

lemma validateStudentData_accepts:
  assumes "readField sd FName = JStr n" "n \<noteq> []" "readField sd FSubject = JStr t" "t \<noteq> []"
    and "readField sd FPerformance = JNum (Fin p)" "0 < p" "p \<le> 100"
    and "\<not> truthy (readField sd FWeakAreas) \<or> isArray (readField sd FWeakAreas)"
    and "\<not> truthy (readField sd FStrengths) \<or> isArray (readField sd FStrengths)"
  shows "validateStudentData S sd = Inr \<lparr> isValid = True, errors = [] \<rparr>"
proof -
  have "toNumber S (readField sd FPerformance) = Inr (Fin p)" using assms(5) by simp
  from validateStudentData_result [OF this] assms show ?thesis
    by (auto simp: validationErrors_def js_lt_Fin js_gt_Fin)
qed

text \<open>
  Claim C4. A record with a non-empty name and subject and a score in the range 0 to 100
  should be valid. At the score 0, which the range check of the validator itself admits,
  the required-field check reads the falsy 0 as a missing field: the verdict is invalid
  and the one error says that performance is required.
\<close>

theorem validateStudentData_score_zero:
  "validateStudentData S
     (jsonObject [(''name'', JStr ''Ann''), (''performance'', JNum (Fin 0)),
                  (''subject'', JStr ''Math'')])
   = Inr \<lparr> isValid = False, errors = [''performance is required''] \<rparr>"
proof -
  let ?sd = "jsonObject [(''name'', JStr ''Ann''), (''performance'', JNum (Fin 0)),
                         (''subject'', JStr ''Math'')]"
  have "toNumber S (readField ?sd FPerformance) = Inr (Fin 0)"
    by (simp add: readField_jsonObject getOwn_Cons)
  from validateStudentData_result [OF this] show ?thesis
    by (simp add: validationErrors_def readField_jsonObject getOwn_Cons getOwn_Nil
          js_lt_Fin js_gt_Fin)
qed

text \<open>
  Claim C8, as amended. When name, performance and subject are all absent, the validator
  returns an invalid verdict whose error list starts with the three lines name is
  required, performance is required, subject is required, one per missing field and in
  this order. The list holds exactly these three when weakAreas and strengths are each
  falsy or an array; a truthy weakAreas or strengths that is no array adds its own line
  after them. learningStyle adds nothing.
\<close>

theorem validateStudentData_missing_required:
  assumes "readField sd FName = JUndefined"
    and "readField sd FPerformance = JUndefined"
    and "readField sd FSubject = JUndefined"
  shows "\<exists>v. validateStudentData S sd = Inr v
       \<and> \<not> isValid v
       \<and> errors v =
           [''name is required'', ''performance is required'', ''subject is required'']
           @ (if truthy (readField sd FWeakAreas) \<and> \<not> isArray (readField sd FWeakAreas)
              then [''Weak areas must be an array''] else [])
           @ (if truthy (readField sd FStrengths) \<and> \<not> isArray (readField sd FStrengths)
              then [''Strengths must be an array''] else [])
       \<and> ((\<not> truthy (readField sd FWeakAreas) \<or> isArray (readField sd FWeakAreas))
            \<and> (\<not> truthy (readField sd FStrengths) \<or> isArray (readField sd FStrengths))
          \<longrightarrow> errors v =
                [''name is required'', ''performance is required'', ''subject is required''])"
proof -
  have "toNumber S (readField sd FPerformance) = Inr NaN" using assms(2) by simp
  from validateStudentData_result [OF this] assms show ?thesis
    by (simp add: validationErrors_def)
qed

theorem validateStudentData_missing_required_witness:
  "map_sum id errors
     (validateStudentData (\<lambda>s. NaN)
        (jsonObject [(''weakAreas'', JArr [''Grammar'']), (''learningStyle'', JNum (Fin 3))]))
   = Inr [''name is required'', ''performance is required'', ''subject is required'']"
proof -
  let ?sd = "jsonObject [(''weakAreas'', JArr [''Grammar'']), (''learningStyle'', JNum (Fin 3))]"
  have a: "readField ?sd FName = JUndefined" "readField ?sd FPerformance = JUndefined"
    "readField ?sd FSubject = JUndefined"
    by (simp_all add: readField_jsonObject getOwn_Cons getOwn_Nil)
  have b: "isArray (readField ?sd FWeakAreas)" "\<not> truthy (readField ?sd FStrengths)"
    by (simp_all add: readField_jsonObject getOwn_Cons getOwn_Nil)
  from validateStudentData_missing_required [OF a, of "\<lambda>s. NaN"] b show ?thesis
    by auto
qed

text \<open>The claim as stated fails: a weakAreas that is a string adds a fourth error.\<close>

theorem validateStudentData_missing_required_counterexample:
  "readField (jsonObject [(''weakAreas'', JStr ''none'')]) FName = JUndefined
   \<and> readField (jsonObject [(''weakAreas'', JStr ''none'')]) FPerformance = JUndefined
   \<and> readField (jsonObject [(''weakAreas'', JStr ''none'')]) FSubject = JUndefined
   \<and> map_sum id errors
        (validateStudentData (\<lambda>s. NaN) (jsonObject [(''weakAreas'', JStr ''none'')]))
       = Inr [''name is required'', ''performance is required'', ''subject is required'',
              ''Weak areas must be an array'']"
proof -
  let ?sd = "jsonObject [(''weakAreas'', JStr ''none'')]"
  have "toNumber (\<lambda>s. NaN) (readField ?sd FPerformance) = Inr NaN"
    by (simp add: readField_jsonObject getOwn_Cons getOwn_Nil)
  from validateStudentData_result [OF this] show ?thesis
    by (simp add: validationErrors_def readField_jsonObject getOwn_Cons getOwn_Nil)
qed

subsection \<open>Next steps and recommendations\<close>

lemma hasEntries_simps:
  "hasEntries S JUndefined = Inr False"
  "hasEntries S JNull = Inr False"
  "hasEntries S (JArr xs) = Inr (xs \<noteq> [])"
  by (simp_all add: hasEntries_def js_gt_Fin)

text \<open>
  Claim C7. \<open>generateNextSteps\<close> returns, for excellent and for good, the two fixed lines
  of the level, whatever weakAreas is; for needsImprovement its two fixed lines when
  weakAreas is absent or empty, and these two followed by the line Focus specifically on
  with the first two weak areas joined by \<open>and\<close> when weakAreas is a non-empty array.
\<close>

theorem generateNextSteps_lines:
  "generateNextSteps S ''excellent'' w =
     Inr [''Explore advanced topics and challenges'', ''Consider peer tutoring opportunities'']
   \<and> generateNextSteps S ''good'' w =
     Inr [''Practice additional exercises in identified areas'',
          ''Seek clarification on challenging concepts'']
   \<and> (w = JUndefined \<or> w = JNull \<or> w = JArr [] \<longrightarrow>
        generateNextSteps S ''needsImprovement'' w =
          Inr [''Schedule additional support sessions'', ''Review fundamental concepts''])
   \<and> (ws \<noteq> [] \<longrightarrow>
        generateNextSteps S ''needsImprovement'' (JArr ws) =
          Inr [''Schedule additional support sessions'', ''Review fundamental concepts'',
               ''Focus specifically on: '' @ join '' and '' (take 2 ws)])"
  by (auto simp add: generateNextSteps_def hasEntries_simps)

theorem generateNextSteps_lines_witness:
  "generateNextSteps (\<lambda>s. NaN) ''needsImprovement'' (JArr [''Grammar'', ''Vocabulary'', ''Spelling''])
   = Inr [''Schedule additional support sessions'', ''Review fundamental concepts'',
          ''Focus specifically on: Grammar and Vocabulary'']
   \<and> generateNextSteps (\<lambda>s. NaN) ''needsImprovement'' JUndefined
   = Inr [''Schedule additional support sessions'', ''Review fundamental concepts'']"
  using generateNextSteps_lines
          [of "\<lambda>s. NaN" JUndefined "[''Grammar'', ''Vocabulary'', ''Spelling'']"]
  by simp

lemma generateRecommendations_none:
  "w = JUndefined \<or> w = JNull \<or> w = JArr [] \<Longrightarrow>
   generateRecommendations w s = Inr ''Continue building on current strengths''"
  by (auto simp: generateRecommendations_def)

lemma generateRecommendations_focus:
  assumes "ws \<noteq> []" and "optJoin s '' and '' = Inr j"
  shows "generateRecommendations (JArr ws) s =
           Inr (''Focus on '' @ join '' and '' (take 2 ws)
                @ '' while leveraging strengths in '' @ orDefault j ''identified areas'')"
  using assms by (simp add: generateRecommendations_def)

text \<open>
  Claim C5, as amended. With weakAreas absent or empty, \<open>generateRecommendations\<close>
  returns Continue building on current strengths, whatever strengths is. With a non-empty
  weakAreas it returns Focus on, the first two weak areas joined by \<open>and\<close>, while
  leveraging strengths in, and then the strengths joined by \<open>and\<close>, or identified areas
  when strengths is absent or empty: this is the specification's wording for every
  strengths other than the array of one empty string. On that array the joined text is
  empty, and the text ends with identified areas as well.
\<close>

theorem generateRecommendations_text:
  "(w = JUndefined \<or> w = JNull \<or> w = JArr [] \<longrightarrow>
      generateRecommendations w s = Inr ''Continue building on current strengths'')
   \<and> (s = JUndefined \<or> s = JNull \<longrightarrow>
        generateRecommendations (JArr ws) s = Inr (specRecommendations ws []))
   \<and> (ss \<noteq> [[]] \<longrightarrow>
        generateRecommendations (JArr ws) (JArr ss) = Inr (specRecommendations ws ss))
   \<and> (ws \<noteq> [] \<longrightarrow>
        generateRecommendations (JArr ws) (JArr [[]]) =
          Inr (''Focus on '' @ join '' and '' (take 2 ws)
               @ '' while leveraging strengths in identified areas''))"
proof -
  have a: "w = JUndefined \<or> w = JNull \<or> w = JArr [] \<longrightarrow>
      generateRecommendations w s = Inr ''Continue building on current strengths''"
    by (simp add: generateRecommendations_none)
  have b: "s = JUndefined \<or> s = JNull \<longrightarrow>
        generateRecommendations (JArr ws) s = Inr (specRecommendations ws [])"
    by (cases "ws = []")
       (auto simp: generateRecommendations_none generateRecommendations_focus
          specRecommendations_def)
  have c: "ss \<noteq> [[]] \<longrightarrow>
        generateRecommendations (JArr ws) (JArr ss) = Inr (specRecommendations ws ss)"
    using join_empty_iff [of "'' and ''" ss]
    by (cases "ws = []")
       (auto simp: generateRecommendations_none generateRecommendations_focus
          specRecommendations_def)
  have d: "ws \<noteq> [] \<longrightarrow>
        generateRecommendations (JArr ws) (JArr [[]]) =
          Inr (''Focus on '' @ join '' and '' (take 2 ws)
               @ '' while leveraging strengths in identified areas'')"
    by (simp add: generateRecommendations_focus)
  from a b c d show ?thesis by blast
qed

theorem generateRecommendations_text_witness:
  "generateRecommendations (JArr [''Grammar'', ''Spelling'', ''Syntax''])
     (JArr [''Creative writing'', ''Reading''])
   = Inr ''Focus on Grammar and Spelling while leveraging strengths in Creative writing and Reading''
   \<and> generateRecommendations JUndefined (JArr [''Math''])
   = Inr ''Continue building on current strengths''"
  using generateRecommendations_text
          [of JUndefined "JArr [''Math'']" "[''Grammar'', ''Spelling'', ''Syntax'']"
              "[''Creative writing'', ''Reading'']"]
  by (simp add: specRecommendations_def)

text \<open>The claim as stated fails at a strengths array holding one empty string: the
  joined strengths are the empty text, and the code puts identified areas there.\<close>

theorem generateRecommendations_text_counterexample:
  "generateRecommendations (JArr [''Grammar'']) (JArr [[]])
     = Inr ''Focus on Grammar while leveraging strengths in identified areas''
   \<and> specRecommendations [''Grammar''] [[]]
     = ''Focus on Grammar while leveraging strengths in ''"
  by (simp add: generateRecommendations_def specRecommendations_def)

subsection \<open>Sanitizing: what is written, and where\<close>

lemma sanitizeValue_simps:
  "sanitizeValue (JStr s) = JStr (stripAngle (trim s))"
  "typeof v \<noteq> ''string'' \<Longrightarrow> sanitizeValue v = v"
  by (simp_all add: sanitizeValue_def)

lemma sanitizeValue_absentOrArray: "absentOrArray v \<Longrightarrow> sanitizeValue v = v"
  by (erule absentOrArray_cases) (simp_all add: sanitizeValue_def)

text \<open>An assignment to a key other than \<open>__proto__\<close> writes an own data property and
  leaves the prototype; an assignment to \<open>__proto__\<close> leaves every other own property.\<close>

lemma setProperty_plain:
  "k \<noteq> ''__proto__'' \<Longrightarrow>
   setProperty ob k v = ob\<lparr> ownFields := putOwn (ownFields ob) k v \<rparr>"
  by (simp add: setProperty_def)

lemma getOwn_setProperty:
  "k' \<noteq> ''__proto__'' \<Longrightarrow>
   getOwn (ownFields (setProperty ob k v)) k' = (if k = k' then v else getOwn (ownFields ob) k')"
  by (auto simp: setProperty_def getOwn_putOwn split: jsval.splits)

lemma getOwn_fold_setProperty:
  "k \<noteq> ''__proto__'' \<Longrightarrow>
   getOwn (ownFields (fold (\<lambda>key sanitized. setProperty sanitized key (f key)) ks acc)) k
     = (if k \<in> set ks then f k else getOwn (ownFields acc) k)"
  by (induction ks arbitrary: acc) (auto simp: getOwn_setProperty)

lemma fold_setProperty_plain:
  "''__proto__'' \<notin> set ks \<Longrightarrow>
   fold (\<lambda>key sanitized. setProperty sanitized key (f key)) ks acc
     = acc\<lparr> ownFields := fold (\<lambda>key fs. putOwn fs key (f key)) ks (ownFields acc) \<rparr>"
  by (induction ks arbitrary: acc) (auto simp: setProperty_plain)

lemma keys_fold_putOwn:
  "distinct ks \<Longrightarrow> set ks \<inter> set (keys acc) = {} \<Longrightarrow>
   keys (fold (\<lambda>key fs. putOwn fs key (f key)) ks acc) = keys acc @ ks"
  by (induction ks arbitrary: acc) (auto simp: keys_putOwn)

text \<open>Every own field of the argument other than \<open>__proto__\<close> is an own field of the
  result, with the sanitized value.\<close>

lemma getOwn_sanitizedObject:
  "k \<noteq> ''__proto__'' \<Longrightarrow>
   getOwn (ownFields (sanitizedObject data)) k = sanitizeValue (getOwn (ownFields data) k)"
  by (auto simp: sanitizedObject_def getOwn_fold_setProperty jsonObject_def getOwn_Nil
        getOwn_absent sanitizeValue_simps)

text \<open>On an argument that has no own field \<open>__proto__\<close>, the result has the keys of the
  argument and the prototype of a new object.\<close>

lemma sanitizedObject_plain:
  assumes "\<not> hasOwn (ownFields data) ''__proto__''"
  shows "prototype (sanitizedObject data) = ObjectPrototype"
    and "distinct (keys (ownFields data)) \<Longrightarrow>
         keys (ownFields (sanitizedObject data)) = keys (ownFields data)"
proof -
  have n: "''__proto__'' \<notin> set (keys (ownFields data))"
    using assms by (simp add: hasOwn_keys)
  note e = fold_setProperty_plain [OF n, of "\<lambda>key. sanitizeValue (getOwn (ownFields data) key)"
             "jsonObject []"]
  show "prototype (sanitizedObject data) = ObjectPrototype"
    unfolding sanitizedObject_def e by (simp add: jsonObject_def)
  assume d: "distinct (keys (ownFields data))"
  show "keys (ownFields (sanitizedObject data)) = keys (ownFields data)"
    unfolding sanitizedObject_def e
    using keys_fold_putOwn [OF d, of "[]" "\<lambda>key. sanitizeValue (getOwn (ownFields data) key)"]
    by (simp add: jsonObject_def) (simp add: keys_def)
qed

text \<open>Every step of the loop writes to the new object only, so the loop on the store is
  the loop on the new object, next to an unchanged old store.\<close>

lemma sanitize_loop_store:
  "data < length h \<Longrightarrow>
   fold (\<lambda>key hp. hp[length h := setProperty (hp ! length h) key
                                    (sanitizeValue (getOwn (ownFields (hp ! data)) key))])
        ks (h @ [ob])
   = h @ [fold (\<lambda>key sanitized.
                  setProperty sanitized key (sanitizeValue (getOwn (ownFields (h ! data)) key)))
               ks ob]"
  by (induction ks arbitrary: ob) (auto simp: nth_append list_update_append)

lemma sanitizeInput_eq:
  "data < length h \<Longrightarrow> sanitizeInput h data = (length h, h @ [sanitizedObject (h ! data)])"
  by (simp add: sanitizeInput_def Let_def nth_append sanitize_loop_store sanitizedObject_def)

text \<open>
  What holds of \<open>sanitizeInput\<close> on every object of the store: the result is a new
  object, and every object the store held is as it was, the argument included. On an
  argument with no own field \<open>__proto__\<close> the new object has the fields of the argument,
  a string trimmed and then without its angle brackets, every other value as it is.
\<close>

lemma sanitizeInput_frame:
  assumes "data < length h"
  shows "fst (sanitizeInput h data) = length h
       \<and> length (snd (sanitizeInput h data)) = Suc (length h)
       \<and> take (length h) (snd (sanitizeInput h data)) = h
       \<and> snd (sanitizeInput h data) ! data = h ! data"
  using assms by (simp add: sanitizeInput_eq nth_append)

lemma getOwn_fold_putOwn:
  "getOwn (fold (\<lambda>key fs. putOwn fs key (f key)) ks acc) k
     = (if k \<in> set ks then f k else getOwn acc k)"
  by (induction ks arbitrary: acc) (auto simp: getOwn_putOwn)

lemma getOwn_sanitizedObject_plain:
  assumes "\<not> hasOwn (ownFields data) ''__proto__''"
  shows "getOwn (ownFields (sanitizedObject data)) k = sanitizeValue (getOwn (ownFields data) k)"
proof -
  have n: "''__proto__'' \<notin> set (keys (ownFields data))"
    using assms by (simp add: hasOwn_keys)
  note e = fold_setProperty_plain [OF n, of "\<lambda>key. sanitizeValue (getOwn (ownFields data) key)"
             "jsonObject []"]
  show ?thesis
    unfolding sanitizedObject_def e
    by (auto simp: getOwn_fold_putOwn jsonObject_def getOwn_Nil getOwn_absent
          sanitizeValue_simps)
qed

lemma sanitizeInput_fields:
  assumes "data < length h" and "\<not> hasOwn (ownFields (h ! data)) ''__proto__''"
  shows "(\<forall>k s. getOwn (ownFields (h ! data)) k = JStr s \<longrightarrow>
             getOwn (ownFields (snd (sanitizeInput h data) ! fst (sanitizeInput h data))) k
               = JStr (stripAngle (trim s)))
       \<and> (\<forall>k. typeof (getOwn (ownFields (h ! data)) k) \<noteq> ''string'' \<longrightarrow>
             getOwn (ownFields (snd (sanitizeInput h data) ! fst (sanitizeInput h data))) k
               = getOwn (ownFields (h ! data)) k)
       \<and> prototype (snd (sanitizeInput h data) ! fst (sanitizeInput h data)) = ObjectPrototype
       \<and> (distinct (keys (ownFields (h ! data))) \<longrightarrow>
             keys (ownFields (snd (sanitizeInput h data) ! fst (sanitizeInput h data)))
               = keys (ownFields (h ! data)))"
  using assms
  by (simp add: sanitizeInput_eq getOwn_sanitizedObject_plain sanitizedObject_plain
        sanitizeValue_simps nth_append)

text \<open>\<open>trim\<close> removes white space at both ends and nothing else: the text is the trimmed
  text between two runs of white space, and the trimmed text neither starts nor ends
  with white space.\<close>

lemma dropWhile_end_split:
  "m = rev (dropWhile P (rev m)) @ rev (takeWhile P (rev m))"
proof -
  have "m = rev (rev m)" by simp
  also have "\<dots> = rev (takeWhile P (rev m) @ dropWhile P (rev m))"
    by (simp only: takeWhile_dropWhile_id)
  also have "\<dots> = rev (dropWhile P (rev m)) @ rev (takeWhile P (rev m))"
    by (simp only: rev_append)
  finally show ?thesis .
qed

lemma trim_decompose:
  "\<exists>pre post. s = pre @ trim s @ post \<and> list_all isWhiteSpace pre \<and> list_all isWhiteSpace post"
proof -
  define m where "m = dropWhile isWhiteSpace s"
  define a where "a = takeWhile isWhiteSpace s"
  define b where "b = rev (takeWhile isWhiteSpace (rev m))"
  have 1: "s = a @ m" by (simp add: a_def m_def)
  have 2: "m = trim s @ b"
    unfolding trim_def b_def m_def [symmetric] by (rule dropWhile_end_split)
  have 3: "list_all isWhiteSpace a"
    unfolding a_def list_all_iff by (meson set_takeWhileD)
  have 4: "list_all isWhiteSpace b"
    unfolding b_def list_all_iff set_rev by (meson set_takeWhileD)
  from 1 2 have "s = a @ trim s @ b" by simp
  with 3 4 show ?thesis by blast
qed

lemma trim_ends:
  assumes ne: "trim s \<noteq> []"
  shows "\<not> isWhiteSpace (hd (trim s)) \<and> \<not> isWhiteSpace (last (trim s))"
proof -
  define m where "m = dropWhile isWhiteSpace s"
  define r where "r = dropWhile isWhiteSpace (rev m)"
  have t: "trim s = rev r" by (simp add: trim_def r_def m_def)
  with ne have rne: "r \<noteq> []" by simp
  then have l: "\<not> isWhiteSpace (hd r)" unfolding r_def by (rule hd_dropWhile)
  have "last (trim s) = hd r" using t rne by (simp add: last_rev)
  with l have A: "\<not> isWhiteSpace (last (trim s))" by simp
  have mb: "m = trim s @ rev (takeWhile isWhiteSpace (rev m))"
    unfolding t r_def by (rule dropWhile_end_split)
  with ne have mne: "m \<noteq> []" by auto
  then have hm: "\<not> isWhiteSpace (hd m)" unfolding m_def by (rule hd_dropWhile)
  from mb ne have "hd m = hd (trim s)" by (metis hd_append2)
  with hm A show ?thesis by simp
qed

lemma stripAngle_set: "set (stripAngle s) = set s - {CHR ''<'', CHR ''>''}"
  by (auto simp: stripAngle_def)

text \<open>
  Claim C9. \<open>sanitizeInput\<close> should give a new object in which every field of the
  argument that is a string is trimmed and without angle brackets, and every other field
  is passed through. On an argument with an own field \<open>__proto__\<close> it does not: the
  assignment of that key does not make a field. A string value is dropped; an object
  value becomes the prototype of the result, which then inherits the fields of that
  value.
\<close>

theorem sanitizeInput_proto_key:
  "sanitizeInput [jsonObject [(''__proto__'', JStr '' <p> ''), (''name'', JStr '' n '')]] 0
     = (1, [jsonObject [(''__proto__'', JStr '' <p> ''), (''name'', JStr '' n '')],
            jsonObject [(''name'', JStr ''n'')]])
   \<and> sanitizeInput
       [jsonObject [(''name'', JStr ''Ann''),
                    (''__proto__'', JObj [(''weakAreas'', JArr [''{topic}''])])]] 0
     = (1, [jsonObject [(''name'', JStr ''Ann''),
                        (''__proto__'', JObj [(''weakAreas'', JArr [''{topic}''])])],
            \<lparr> ownFields = [(''name'', JStr ''Ann'')],
              prototype = ObjectValue [(''weakAreas'', JArr [''{topic}''])] \<rparr>])
   \<and> readField \<lparr> ownFields = [(''name'', JStr ''Ann'')],
                  prototype = ObjectValue [(''weakAreas'', JArr [''{topic}''])] \<rparr> FWeakAreas
     = JArr [''{topic}'']"
  by (simp add: sanitizeInput_eq sanitizedObject_def jsonObject_def keys_def getOwn_Cons
        getOwn_Nil setProperty_def hasOwn_Cons hasOwn_Nil sanitizeValue_def trim_def
        stripAngle_def isWhiteSpace_def readField_def)

subsection \<open>When the engine returns\<close>

lemma optJoin_ok: "absentOrArray v \<Longrightarrow> \<exists>j. optJoin v sep = Inr j"
  by (erule absentOrArray_cases) simp_all

lemma hasEntries_ok: "absentOrArray v \<Longrightarrow> hasEntries S v = Inr (\<exists>x xs. v = JArr (x # xs))"
  by (erule absentOrArray_cases) (auto simp: hasEntries_simps neq_Nil_conv)

lemma generateRecommendations_ok:
  assumes "absentOrArray w" "absentOrArray s"
  shows "\<exists>r. generateRecommendations w s = Inr r"
proof (rule absentOrArray_cases [OF assms(1)])
  fix ws assume w: "w = JArr ws"
  obtain j where "optJoin s '' and '' = Inr j" using optJoin_ok [OF assms(2)] by blast
  then show ?thesis using w
    by (cases "ws = []") (simp_all add: generateRecommendations_none generateRecommendations_focus)
qed (simp_all add: generateRecommendations_none)

lemma feedbackData_ok:
  assumes "absentOrArray (readField sd FWeakAreas)" "absentOrArray (readField sd FStrengths)"
  shows "\<exists>j r. optJoin (readField sd FWeakAreas) '', '' = Inr j
          \<and> generateRecommendations (readField sd FWeakAreas) (readField sd FStrengths) = Inr r
          \<and> feedbackData sd =
             Inr [(''student'', readField sd FName), (''topic'', readField sd FSubject),
                  (''areas'', JStr (orDefault j ''general concepts'')),
                  (''recommendations'', JStr r)]"
proof -
  obtain j where j: "optJoin (readField sd FWeakAreas) '', '' = Inr j"
    using optJoin_ok [OF assms(1)] by blast
  obtain r where r:
    "generateRecommendations (readField sd FWeakAreas) (readField sd FStrengths) = Inr r"
    using generateRecommendations_ok [OF assms] by blast
  from j r show ?thesis by (simp add: feedbackData_def)
qed

lemma feedbackData_Inr:
  assumes "feedbackData sd = Inr d"
  shows "\<exists>j rc. optJoin (readField sd FWeakAreas) '', '' = Inr j
          \<and> generateRecommendations (readField sd FWeakAreas) (readField sd FStrengths) = Inr rc
          \<and> d = [(''student'', readField sd FName), (''topic'', readField sd FSubject),
                  (''areas'', JStr (orDefault j ''general concepts'')),
                  (''recommendations'', JStr rc)]"
  using assms by (auto simp: feedbackData_def split: sum.splits)

lemma personalizeFeedback_four:
  assumes "toString N a = Inr x" and "toString N b = Inr y"
  shows "personalizeFeedback N template
     [(''student'', a), (''topic'', b), (''areas'', JStr c), (''recommendations'', JStr d)]
   = Inr (replaceFirst (replaceFirst (replaceFirst (replaceFirst template ''{student}'' x)
        ''{topic}'' y) ''{areas}'' c) ''{recommendations}'' d)"
  using assms by (simp add: personalizeFeedback_def keys_def getOwn_Cons)

lemma generateDetailedRecommendations_ok:
  assumes "absentOrArray (readField sd FWeakAreas)" "absentOrArray (readField sd FStrengths)"
    and "convertible (readField sd FLearningStyle)"
  shows "\<exists>ds. generateDetailedRecommendations S N sd = Inr ds"
proof -
  obtain t where t: "toString N (readField sd FLearningStyle) = Inr t"
    using convertible_toString [OF assms(3)] by blast
  show ?thesis
    apply (rule absentOrArray_cases [OF assms(1)]; rule absentOrArray_cases [OF assms(2)])
    apply (simp_all add: generateDetailedRecommendations_def Let_def hasEntries_simps t)
    done
qed

lemma generateNextSteps_ok:
  "absentOrArray w \<Longrightarrow> \<exists>steps. generateNextSteps S level w = Inr steps"
  by (erule absentOrArray_cases) (simp_all add: generateNextSteps_def hasEntries_simps)

lemma generateFeedback_ok:
  assumes w: "absentOrArray (readField sd FWeakAreas)"
    and s: "absentOrArray (readField sd FStrengths)"
    and c: "convertible (readField sd FName)" "convertible (readField sd FPerformance)"
           "convertible (readField sd FSubject)" "convertible (readField sd FLearningStyle)"
  shows "\<exists>r. generateFeedback S N now sd cr = Inr r"
proof -
  obtain l where l: "assessPerformance S (readField sd FPerformance) = Inr l"
    using assessPerformance_convertible [OF c(2)] by blast
  obtain tp where tp: "getBaseTemplate l = TemplateText tp"
    using assessPerformance_cases [OF l] by (auto simp: getBaseTemplate_levels)
  obtain j rc where d: "feedbackData sd =
             Inr [(''student'', readField sd FName), (''topic'', readField sd FSubject),
                  (''areas'', JStr (orDefault j ''general concepts'')),
                  (''recommendations'', JStr rc)]"
    using feedbackData_ok [OF w s] by blast
  obtain x y where x: "toString N (readField sd FName) = Inr x"
    and y: "toString N (readField sd FSubject) = Inr y"
    using convertible_toString [OF c(1)] convertible_toString [OF c(3)] by blast
  note pf = personalizeFeedback_four [OF x y]
  obtain ds where ds: "generateDetailedRecommendations S N sd = Inr ds"
    using generateDetailedRecommendations_ok [OF w s c(4)] by blast
  obtain st where st: "generateNextSteps S l (readField sd FWeakAreas) = Inr st"
    using generateNextSteps_ok [OF w] by blast
  show ?thesis by (simp add: generateFeedback_def Let_def l tp d pf ds st)
qed

lemma generateFeedback_Inr:
  assumes "generateFeedback S N now sd c = Inr r"
  shows "\<exists>tp d. assessPerformance S (readField sd FPerformance) = Inr (performanceLevel r)
              \<and> getBaseTemplate (performanceLevel r) = TemplateText tp
              \<and> feedbackData sd = Inr d
              \<and> personalizeFeedback N tp d = Inr (feedback r)"
  using assms
  by (auto simp: generateFeedback_def Let_def split: sum.splits tableValue.splits)

lemma generateFeedback_level:
  "map_sum id performanceLevel (generateFeedback S N now sd c)
     = map_sum id performanceLevel (generateFeedback S N now' sd c')"
  by (simp add: generateFeedback_def Let_def split: sum.splits tableValue.splits)

text \<open>The validator admits a record whose learningStyle is an object with an own field
  \<open>toString\<close>; the engine fails on it, in the template literal that converts the
  learning style to a string.\<close>

lemma generateFeedback_learningStyle_fails:
  "validateStudentData S
     (jsonObject [(''name'', JStr ''Ann''), (''performance'', JNum (Fin 75)),
                  (''subject'', JStr ''Math''),
                  (''learningStyle'', JObj [(''toString'', JNum (Fin 1))])])
     = Inr \<lparr> isValid = True, errors = [] \<rparr>
   \<and> generateFeedback S N now
        (jsonObject [(''name'', JStr ''Ann''), (''performance'', JNum (Fin 75)),
                     (''subject'', JStr ''Math''),
                     (''learningStyle'', JObj [(''toString'', JNum (Fin 1))])]) c
      = Inl TypeError"
proof -
  let ?sd = "jsonObject [(''name'', JStr ''Ann''), (''performance'', JNum (Fin 75)),
                     (''subject'', JStr ''Math''),
                     (''learningStyle'', JObj [(''toString'', JNum (Fin 1))])]"
  have v: "validateStudentData S ?sd = Inr \<lparr> isValid = True, errors = [] \<rparr>"
    by (rule validateStudentData_accepts [where n = "''Ann''" and t = "''Math''" and p = 75])
       (simp_all add: readField_jsonObject getOwn_Cons getOwn_Nil)
  have g: "generateFeedback S N now ?sd c = Inl TypeError"
    by (simp add: generateFeedback_def Let_def readField_jsonObject getOwn_Cons getOwn_Nil
          assessPerformance_Fin getBaseTemplate_levels feedbackData_def
          generateRecommendations_def personalizeFeedback_def keys_def
          generateDetailedRecommendations_def hasEntries_simps hasOwn_Cons)
  from v g show ?thesis by simp
qed

text \<open>The validator admits a falsy weakAreas that is neither undefined nor null; the
  optional call \<open>weakAreas?.join\<close> of the engine then fails.\<close>

lemma generateFeedback_falsy_weakAreas:
  "validateStudentData S
     (jsonObject [(''name'', JStr ''Ann''), (''performance'', JNum (Fin 75)),
                  (''subject'', JStr ''Math''), (''weakAreas'', JBool False)])
     = Inr \<lparr> isValid = True, errors = [] \<rparr>
   \<and> generateFeedback S N now
        (jsonObject [(''name'', JStr ''Ann''), (''performance'', JNum (Fin 75)),
                     (''subject'', JStr ''Math''), (''weakAreas'', JBool False)]) c
      = Inl TypeError"
proof -
  let ?sd = "jsonObject [(''name'', JStr ''Ann''), (''performance'', JNum (Fin 75)),
                  (''subject'', JStr ''Math''), (''weakAreas'', JBool False)]"
  have v: "validateStudentData S ?sd = Inr \<lparr> isValid = True, errors = [] \<rparr>"
    by (rule validateStudentData_accepts [where n = "''Ann''" and t = "''Math''" and p = 75])
       (simp_all add: readField_jsonObject getOwn_Cons getOwn_Nil)
  have g: "generateFeedback S N now ?sd c = Inl TypeError"
    by (simp add: generateFeedback_def Let_def readField_jsonObject getOwn_Cons getOwn_Nil
          assessPerformance_Fin feedbackData_def)
  from v g show ?thesis by simp
qed

subsection \<open>Classification does not read the criteria\<close>

text \<open>
  Claim C3. For every student record and every two criteria values, \<open>generateFeedback\<close>
  has the same outcome on both as far as the performance level goes: the level of a
  result is the classification of the record's score, whatever the criteria (a rubric
  with its own thresholds included). There is a result on a record whose weakAreas and
  strengths are absent or arrays and whose name, score, subject and learning style
  convert to a string or a number without failing.
\<close>

theorem generateFeedback_ignores_criteria:
  "map_sum id performanceLevel (generateFeedback S N now sd c1)
     = map_sum id performanceLevel (generateFeedback S N now' sd c2)
   \<and> (\<forall>r. generateFeedback S N now sd c1 = Inr r \<longrightarrow>
          assessPerformance S (readField sd FPerformance) = Inr (performanceLevel r))
   \<and> (absentOrArray (readField sd FWeakAreas) \<and> absentOrArray (readField sd FStrengths)
       \<and> convertible (readField sd FName) \<and> convertible (readField sd FPerformance)
       \<and> convertible (readField sd FSubject) \<and> convertible (readField sd FLearningStyle)
      \<longrightarrow> (\<exists>r. generateFeedback S N now sd c1 = Inr r))"
  using generateFeedback_level [of S N now sd c1 now' c2]
    generateFeedback_Inr [of S N now sd c1] generateFeedback_ok [of sd S N now c1]
  by blast

theorem generateFeedback_ignores_criteria_witness:
  "map_sum id performanceLevel
     (generateFeedback (\<lambda>s. NaN) (\<lambda>n. []) [] johnDoe
        (jsonObject [(''rubric'', JObj [(''excellence'', JNum (Fin 95)), (''good'', JNum (Fin 80)),
                                        (''improvement'', JNum (Fin 50))])]))
     = Inr ''excellent''
   \<and> map_sum id performanceLevel
       (generateFeedback (\<lambda>s. NaN) (\<lambda>n. []) [] johnDoe (jsonObject []))
     = Inr ''excellent''"
proof -
  let ?rubric = "jsonObject [(''rubric'', JObj [(''excellence'', JNum (Fin 95)),
                    (''good'', JNum (Fin 80)), (''improvement'', JNum (Fin 50))])]"
  have a: "absentOrArray (readField johnDoe FWeakAreas) \<and> absentOrArray (readField johnDoe FStrengths)
       \<and> convertible (readField johnDoe FName) \<and> convertible (readField johnDoe FPerformance)
       \<and> convertible (readField johnDoe FSubject) \<and> convertible (readField johnDoe FLearningStyle)"
    by (simp add: johnDoe_def readField_jsonObject getOwn_Cons getOwn_Nil absentOrArray_def)
  have l: "assessPerformance (\<lambda>s. NaN) (readField johnDoe FPerformance) = Inr ''excellent''"
    by (simp add: johnDoe_def readField_jsonObject getOwn_Cons assessPerformance_Fin)
  note t = generateFeedback_ignores_criteria
             [of "\<lambda>s. NaN" "\<lambda>n. []" "[]" johnDoe ?rubric "[]" "jsonObject []"]
  from t a obtain r where r: "generateFeedback (\<lambda>s. NaN) (\<lambda>n. []) [] johnDoe ?rubric = Inr r"
    by blast
  with t l have "performanceLevel r = ''excellent''" by simp
  with r have 1: "map_sum id performanceLevel
      (generateFeedback (\<lambda>s. NaN) (\<lambda>n. []) [] johnDoe ?rubric) = Inr ''excellent''"
    by simp
  with t show ?thesis by simp
qed

subsection \<open>The binding of the slot for the weak areas\<close>

lemma orDefault_join:
  "sep \<noteq> [] \<Longrightarrow>
   orDefault (Some (join sep ws)) d = (if ws = [] \<or> ws = [[]] then d else join sep ws)"
  using join_empty_iff [of sep ws] by auto

lemma feedbackData_areas:
  assumes "absentOrArray (readField sd FWeakAreas)" "absentOrArray (readField sd FStrengths)"
  shows "\<exists>d j. feedbackData sd = Inr d \<and> optJoin (readField sd FWeakAreas) '', '' = Inr j
            \<and> getOwn d ''areas'' = JStr (orDefault j ''general concepts'')"
proof -
  obtain j r where j: "optJoin (readField sd FWeakAreas) '', '' = Inr j"
    and d: "feedbackData sd =
             Inr [(''student'', readField sd FName), (''topic'', readField sd FSubject),
                  (''areas'', JStr (orDefault j ''general concepts'')),
                  (''recommendations'', JStr r)]"
    using feedbackData_ok [OF assms] by blast
  have "getOwn [(''student'', readField sd FName), (''topic'', readField sd FSubject),
             (''areas'', JStr (orDefault j ''general concepts'')),
             (''recommendations'', JStr r)] ''areas''
          = JStr (orDefault j ''general concepts'')"
    by (simp add: getOwn_Cons)
  with j d show ?thesis by blast
qed

text \<open>
  Claim C6, as amended. For a record whose weakAreas and strengths are absent or arrays,
  the object passed to \<open>personalizeFeedback\<close> binds \<open>areas\<close> to the weak areas joined by
  a comma and a space whenever that joined text is not empty, that is for every array
  other than the empty one and the one holding a single empty string; it binds \<open>areas\<close>
  to general concepts when weakAreas is absent, empty, or that single empty string.
\<close>

theorem feedbackData_areas_binding:
  assumes "absentOrArray (readField sd FWeakAreas)"
    and "absentOrArray (readField sd FStrengths)"
  shows "\<exists>d. feedbackData sd = Inr d
     \<and> (readField sd FWeakAreas = JUndefined \<or> readField sd FWeakAreas = JNull \<longrightarrow>
          getOwn d ''areas'' = JStr ''general concepts'')
     \<and> (\<forall>ws. readField sd FWeakAreas = JArr ws \<and> ws \<noteq> [[]] \<longrightarrow>
          getOwn d ''areas'' = JStr (specAreas ws))
     \<and> (readField sd FWeakAreas = JArr [[]] \<longrightarrow> getOwn d ''areas'' = JStr ''general concepts'')"
proof -
  obtain d j where d: "feedbackData sd = Inr d"
    and j: "optJoin (readField sd FWeakAreas) '', '' = Inr j"
    and a: "getOwn d ''areas'' = JStr (orDefault j ''general concepts'')"
    using feedbackData_areas [OF assms] by blast
  have 1: "readField sd FWeakAreas = JUndefined \<or> readField sd FWeakAreas = JNull \<longrightarrow>
             getOwn d ''areas'' = JStr ''general concepts''"
    using j a by auto
  have 2: "getOwn d ''areas'' = JStr (specAreas ws)"
    if "readField sd FWeakAreas = JArr ws" "ws \<noteq> [[]]" for ws
  proof -
    from j that have "j = Some (join '', '' ws)" by simp
    with a that show ?thesis by (simp add: orDefault_join specAreas_def del: orDefault.simps)
  qed
  have 3: "readField sd FWeakAreas = JArr [[]] \<longrightarrow> getOwn d ''areas'' = JStr ''general concepts''"
    using j a by auto
  from d 1 2 3 show ?thesis by blast
qed

theorem feedbackData_areas_binding_witness:
  "map_sum id (\<lambda>d. getOwn d ''areas'') (feedbackData janeSmith) = Inr (JStr ''Lab procedures'')"
proof -
  have a: "absentOrArray (readField janeSmith FWeakAreas)"
    "absentOrArray (readField janeSmith FStrengths)"
    by (simp_all add: janeSmith_def readField_jsonObject getOwn_Cons absentOrArray_def)
  have w: "readField janeSmith FWeakAreas = JArr [''Lab procedures'']"
    by (simp add: janeSmith_def readField_jsonObject getOwn_Cons)
  from feedbackData_areas_binding [OF a] obtain d where d: "feedbackData janeSmith = Inr d"
    and "\<forall>ws. readField janeSmith FWeakAreas = JArr ws \<and> ws \<noteq> [[]] \<longrightarrow>
            getOwn d ''areas'' = JStr (specAreas ws)"
    by blast
  with w have "getOwn d ''areas'' = JStr (specAreas [''Lab procedures''])" by simp
  with d show ?thesis by (simp add: specAreas_def)
qed

text \<open>The claim as stated fails on a valid record, unchanged by sanitizing, whose
  weakAreas holds one empty string: the sequence is not empty, and the slot is bound to
  general concepts, not to the joined (empty) text.\<close>

theorem feedbackData_areas_binding_counterexample:
  "validateStudentData (\<lambda>s. NaN)
      (jsonObject [(''name'', JStr ''Ann''), (''performance'', JNum (Fin 75)),
                   (''subject'', JStr ''Math''), (''weakAreas'', JArr [[]])])
     = Inr \<lparr> isValid = True, errors = [] \<rparr>
   \<and> sanitizedObject
        (jsonObject [(''name'', JStr ''Ann''), (''performance'', JNum (Fin 75)),
                     (''subject'', JStr ''Math''), (''weakAreas'', JArr [[]])])
      = jsonObject [(''name'', JStr ''Ann''), (''performance'', JNum (Fin 75)),
                    (''subject'', JStr ''Math''), (''weakAreas'', JArr [[]])]
   \<and> map_sum id (\<lambda>d. getOwn d ''areas'')
        (feedbackData
           (jsonObject [(''name'', JStr ''Ann''), (''performance'', JNum (Fin 75)),
                        (''subject'', JStr ''Math''), (''weakAreas'', JArr [[]])]))
      = Inr (JStr ''general concepts'')
   \<and> specAreas [[]] = []"
proof -
  let ?sd = "jsonObject [(''name'', JStr ''Ann''), (''performance'', JNum (Fin 75)),
                   (''subject'', JStr ''Math''), (''weakAreas'', JArr [[]])]"
  have v: "validateStudentData (\<lambda>s. NaN) ?sd = Inr \<lparr> isValid = True, errors = [] \<rparr>"
    by (rule validateStudentData_accepts [where n = "''Ann''" and t = "''Math''" and p = 75])
       (simp_all add: readField_jsonObject getOwn_Cons getOwn_Nil)
  have s: "sanitizedObject ?sd = ?sd"
    by (simp add: sanitizedObject_def jsonObject_def keys_def getOwn_Cons getOwn_Nil
          setProperty_def hasOwn_Cons hasOwn_Nil sanitizeValue_def trim_def stripAngle_def
          isWhiteSpace_def)
  have f: "map_sum id (\<lambda>d. getOwn d ''areas'') (feedbackData ?sd)
             = Inr (JStr ''general concepts'')"
    by (simp add: feedbackData_def readField_jsonObject getOwn_Cons getOwn_Nil
          generateRecommendations_def)
  have "specAreas [[]] = []" by (simp add: specAreas_def)
  with v s f show ?thesis by simp
qed

subsection \<open>Rendering the templates\<close>

text \<open>A replacement text without a dollar sign is inserted as it is.\<close>

lemma getSubstitution_plain:
  "CHR ''$'' \<notin> set r \<Longrightarrow> getSubstitution m b a r = r"
  by (induction m b a r rule: getSubstitution.induct) auto

lemma startsWith_append: "startsWith (p @ s) p"
  by (induction p) auto

lemma indexOf_at:
  "CHR ''{'' \<notin> set pre \<Longrightarrow>
   indexOf (pre @ (CHR ''{'' # k) @ post) (CHR ''{'' # k) = Some (length pre)"
proof (induction pre)
  case Nil
  show ?case using startsWith_append [of k post] by simp
next
  case (Cons c pre)
  then show ?case by auto
qed

lemma indexOf_none:
  "CHR ''{'' \<notin> set s \<Longrightarrow> indexOf s (CHR ''{'' # k) = None"
  by (induction s) auto

lemma indexOf_other:
  "CHR ''{'' \<notin> set pre \<Longrightarrow> \<not> startsWith rest k \<Longrightarrow> CHR ''{'' \<notin> set rest \<Longrightarrow>
   indexOf (pre @ CHR ''{'' # rest) (CHR ''{'' # k) = None"
  by (induction pre) (auto simp: indexOf_none)

lemma replaceFirst_at:
  assumes "CHR ''{'' \<notin> set pre" and "CHR ''$'' \<notin> set v"
  shows "replaceFirst (pre @ (CHR ''{'' # k) @ post) (CHR ''{'' # k) v = pre @ v @ post"
proof -
  define pat where "pat = CHR ''{'' # k"
  have i: "indexOf (pre @ pat @ post) pat = Some (length pre)"
    unfolding pat_def using assms(1) by (rule indexOf_at)
  have d: "drop (length pre + length pat) (pre @ pat @ post) = post" by simp
  show ?thesis
    unfolding pat_def [symmetric]
    by (simp add: replaceFirst_def i Let_def d getSubstitution_plain assms del: append_assoc)
qed

lemma replaceFirst_none: "indexOf s pat = None \<Longrightarrow> replaceFirst s pat v = s"
  by (simp add: replaceFirst_def)

lemma render_excellent:
  assumes "plain n" "plain t"
  shows "replaceFirst (replaceFirst (replaceFirst (replaceFirst excellentTemplate
       ''{student}'' n) ''{topic}'' t) ''{areas}'' a) ''{recommendations}'' r
   = ''Outstanding work! '' @ n @ '' has demonstrated exceptional understanding of '' @ t @ ''.''"
proof -
  let ?p1 = "''Outstanding work! ''"
  let ?p2 = "'' has demonstrated exceptional understanding of ''"
  have n: "CHR ''{'' \<notin> set n" "CHR ''$'' \<notin> set n" and t: "CHR ''{'' \<notin> set t" "CHR ''$'' \<notin> set t"
    using assms by (simp_all add: plain_def)
  have 1: "replaceFirst excellentTemplate ''{student}'' n = ?p1 @ n @ ?p2 @ ''{topic}.''"
    using replaceFirst_at [of ?p1 n "''student}''" "?p2 @ ''{topic}.''"] n
    by (simp add: excellentTemplate_def)
  have 2: "replaceFirst (?p1 @ n @ ?p2 @ ''{topic}.'') ''{topic}'' t = ?p1 @ n @ ?p2 @ t @ ''.''"
    using replaceFirst_at [of "?p1 @ n @ ?p2" t "''topic}''" "''.''"] n t
    by simp
  have f: "CHR ''{'' \<notin> set (?p1 @ n @ ?p2 @ t @ ''.'')" using n t by simp
  have 3: "replaceFirst (?p1 @ n @ ?p2 @ t @ ''.'') ''{areas}'' a = ?p1 @ n @ ?p2 @ t @ ''.''"
    by (rule replaceFirst_none, rule indexOf_none, rule f)
  have 4: "replaceFirst (?p1 @ n @ ?p2 @ t @ ''.'') ''{recommendations}'' r = ?p1 @ n @ ?p2 @ t @ ''.''"
    by (rule replaceFirst_none, rule indexOf_none, rule f)
  show ?thesis unfolding 1 2 3 4 ..
qed


lemma render_good:
  assumes "plain n" "plain t" "plain a"
  shows "replaceFirst (replaceFirst (replaceFirst (replaceFirst goodTemplate
       ''{student}'' n) ''{topic}'' t) ''{areas}'' a) ''{recommendations}'' r
   = ''Good progress! '' @ n @ '' shows solid grasp of '' @ t
     @ '' with room for improvement in '' @ a @ ''.''"
proof -
  let ?p1 = "''Good progress! ''"
  let ?p2 = "'' shows solid grasp of ''"
  let ?p3 = "'' with room for improvement in ''"
  have n: "CHR ''{'' \<notin> set n" "CHR ''$'' \<notin> set n" and t: "CHR ''{'' \<notin> set t" "CHR ''$'' \<notin> set t"
    and a: "CHR ''{'' \<notin> set a" "CHR ''$'' \<notin> set a"
    using assms by (simp_all add: plain_def)
  have 1: "replaceFirst goodTemplate ''{student}'' n = ?p1 @ n @ ?p2 @ ''{topic}'' @ ?p3 @ ''{areas}.''"
    using replaceFirst_at [of ?p1 n "''student}''" "?p2 @ ''{topic}'' @ ?p3 @ ''{areas}.''"] n
    by (simp add: goodTemplate_def)
  have 2: "replaceFirst (?p1 @ n @ ?p2 @ ''{topic}'' @ ?p3 @ ''{areas}.'') ''{topic}'' t
           = ?p1 @ n @ ?p2 @ t @ ?p3 @ ''{areas}.''"
    using replaceFirst_at [of "?p1 @ n @ ?p2" t "''topic}''" "?p3 @ ''{areas}.''"] n t
    by simp
  have 3: "replaceFirst (?p1 @ n @ ?p2 @ t @ ?p3 @ ''{areas}.'') ''{areas}'' a
           = ?p1 @ n @ ?p2 @ t @ ?p3 @ a @ ''.''"
    using replaceFirst_at [of "?p1 @ n @ ?p2 @ t @ ?p3" a "''areas}''" "''.''"] n t a
    by simp
  have f: "CHR ''{'' \<notin> set (?p1 @ n @ ?p2 @ t @ ?p3 @ a @ ''.'')" using n t a by simp
  have 4: "replaceFirst (?p1 @ n @ ?p2 @ t @ ?p3 @ a @ ''.'') ''{recommendations}'' r
           = ?p1 @ n @ ?p2 @ t @ ?p3 @ a @ ''.''"
    by (rule replaceFirst_none, rule indexOf_none, rule f)
  show ?thesis unfolding 1 2 3 4 ..
qed

lemma render_needsImprovement:
  assumes "plain n" "plain t" "plain r"
  shows "replaceFirst (replaceFirst (replaceFirst (replaceFirst needsImprovementTemplate
       ''{student}'' n) ''{topic}'' t) ''{areas}'' a) ''{recommendations}'' r
   = n @ '' needs additional support in '' @ t @ ''. Consider focusing on '' @ r @ ''.''"
proof -
  let ?p2 = "'' needs additional support in ''"
  let ?p3 = "''. Consider focusing on ''"
  have n: "CHR ''{'' \<notin> set n" "CHR ''$'' \<notin> set n" and t: "CHR ''{'' \<notin> set t" "CHR ''$'' \<notin> set t"
    and r: "CHR ''{'' \<notin> set r" "CHR ''$'' \<notin> set r"
    using assms by (simp_all add: plain_def)
  have 1: "replaceFirst needsImprovementTemplate ''{student}'' n
           = n @ ?p2 @ ''{topic}'' @ ?p3 @ ''{recommendations}.''"
    using replaceFirst_at [of "[]" n "''student}''" "?p2 @ ''{topic}'' @ ?p3 @ ''{recommendations}.''"] n
    by (simp add: needsImprovementTemplate_def)
  have 2: "replaceFirst (n @ ?p2 @ ''{topic}'' @ ?p3 @ ''{recommendations}.'') ''{topic}'' t
           = n @ ?p2 @ t @ ?p3 @ ''{recommendations}.''"
    using replaceFirst_at [of "n @ ?p2" t "''topic}''" "?p3 @ ''{recommendations}.''"] n t
    by simp
  have "indexOf ((n @ ?p2 @ t @ ?p3) @ CHR ''{'' # ''recommendations}.'') (CHR ''{'' # ''areas}'') = None"
    by (rule indexOf_other) (use n t in simp_all)
  then have 3: "replaceFirst (n @ ?p2 @ t @ ?p3 @ ''{recommendations}.'') ''{areas}'' a
           = n @ ?p2 @ t @ ?p3 @ ''{recommendations}.''"
    by (intro replaceFirst_none) simp
  have 4: "replaceFirst (n @ ?p2 @ t @ ?p3 @ ''{recommendations}.'') ''{recommendations}'' r
           = n @ ?p2 @ t @ ?p3 @ r @ ''.''"
    using replaceFirst_at [of "n @ ?p2 @ t @ ?p3" r "''recommendations}''" "''.''"] n t r
    by simp
  show ?thesis unfolding 1 2 3 4 ..
qed

lemma no_brace_resolved: "CHR ''{'' \<notin> set s \<Longrightarrow> \<not> hasUnresolvedPlaceholder s"
  by (simp add: hasUnresolvedPlaceholder_def placeholders_def includesStr_def indexOf_none)

lemma plain_append: "plain (a @ b) = (plain a \<and> plain b)"
  by (auto simp: plain_def)

lemma plain_join: "plain sep \<Longrightarrow> list_all plain xs \<Longrightarrow> plain (join sep xs)"
  by (induction sep xs rule: join.induct) (simp_all add: plain_append, simp add: plain_def)

lemma plain_take: "list_all plain xs \<Longrightarrow> list_all plain (take k xs)"
  by (auto simp: list_all_iff dest: in_set_takeD)

lemma plain_sanitized: "plain s \<Longrightarrow> plain (stripAngle (trim s))"
  by (auto simp: plain_def stripAngle_def trim_def dest!: set_dropWhileD)

lemma plain_orDefault: "plain d \<Longrightarrow> (\<And>s. j = Some s \<Longrightarrow> plain s) \<Longrightarrow> plain (orDefault j d)"
  by (cases j) auto

lemma optJoin_plain:
  assumes "optJoin v sep = Inr j" "plainValue v" "plain sep" "plain d"
  shows "plain (orDefault j d)"
proof (rule plain_orDefault [OF assms(4)])
  fix s assume "j = Some s"
  with assms(1) obtain xs where "v = JArr xs" "s = join sep xs"
    by (cases v) auto
  with assms(2,3) show "plain s" by (simp add: plain_join)
qed

lemma generateRecommendations_plain:
  assumes "generateRecommendations w s = Inr r" "plainValue w" "plainValue s"
  shows "plain r"
proof (cases "\<not> truthy w \<or> lengthOf w = JNum (Fin 0)")
  case True
  with assms(1) have "r = ''Continue building on current strengths''"
    by (simp add: generateRecommendations_def)
  then show ?thesis by (simp add: plain_def)
next
  case False
  with assms(1) obtain f j where f: "sliceJoin w '' and '' = Inr f"
    and j: "optJoin s '' and '' = Inr j"
    and r: "r = ''Focus on '' @ f @ '' while leveraging strengths in '' @ orDefault j ''identified areas''"
    by (auto simp: generateRecommendations_def split: sum.splits)
  from f obtain ws where w: "w = JArr ws" "f = join '' and '' (take 2 ws)"
    by (cases w) auto
  have "plain '' and ''" by (simp add: plain_def)
  moreover have "list_all plain (take 2 ws)" using w assms(2) by (simp add: plain_take)
  ultimately have pf: "plain f" unfolding w by (rule plain_join)
  have pj: "plain (orDefault j ''identified areas'')"
    by (rule optJoin_plain [OF j assms(3)]) (simp_all add: plain_def)
  show ?thesis unfolding r plain_append using pf pj by (simp add: plain_def)
qed


text \<open>A valid record has a name and a subject that are strings.\<close>


text \<open>
  Claim C2. The feedback text should hold no placeholder, whatever the values of the
  fields. \<open>personalizeFeedback\<close> passes the values of the record as replacement
  patterns, one placeholder after the other, and fails to do so on two valid records
  that sanitizing leaves unchanged. A name that is the text of a later placeholder is put
  in first; the later replacement then hits the name and leaves the placeholder of the
  template. A name that is the substitution pattern for the matched text puts the
  placeholder back.
\<close>

theorem generateFeedback_unresolved_placeholder:
  "validateStudentData (\<lambda>s. NaN)
      (jsonObject [(''name'', JStr ''{topic}''), (''performance'', JNum (Fin 90)),
                   (''subject'', JStr ''Math'')])
     = Inr \<lparr> isValid = True, errors = [] \<rparr>
   \<and> sanitizedObject
        (jsonObject [(''name'', JStr ''{topic}''), (''performance'', JNum (Fin 90)),
                     (''subject'', JStr ''Math'')])
      = jsonObject [(''name'', JStr ''{topic}''), (''performance'', JNum (Fin 90)),
                    (''subject'', JStr ''Math'')]
   \<and> map_sum id feedback
        (generateFeedback (\<lambda>s. NaN) (\<lambda>n. []) []
           (jsonObject [(''name'', JStr ''{topic}''), (''performance'', JNum (Fin 90)),
                        (''subject'', JStr ''Math'')]) (jsonObject []))
      = Inr ''Outstanding work! Math has demonstrated exceptional understanding of {topic}.''
   \<and> hasUnresolvedPlaceholder
        ''Outstanding work! Math has demonstrated exceptional understanding of {topic}.''
   \<and> validateStudentData (\<lambda>s. NaN)
      (jsonObject [(''name'', JStr ''$&''), (''performance'', JNum (Fin 90)),
                   (''subject'', JStr ''Math'')])
     = Inr \<lparr> isValid = True, errors = [] \<rparr>
   \<and> sanitizedObject
        (jsonObject [(''name'', JStr ''$&''), (''performance'', JNum (Fin 90)),
                     (''subject'', JStr ''Math'')])
      = jsonObject [(''name'', JStr ''$&''), (''performance'', JNum (Fin 90)),
                    (''subject'', JStr ''Math'')]
   \<and> map_sum id feedback
        (generateFeedback (\<lambda>s. NaN) (\<lambda>n. []) []
           (jsonObject [(''name'', JStr ''$&''), (''performance'', JNum (Fin 90)),
                        (''subject'', JStr ''Math'')]) (jsonObject []))
      = Inr ''Outstanding work! {student} has demonstrated exceptional understanding of Math.''
   \<and> hasUnresolvedPlaceholder
        ''Outstanding work! {student} has demonstrated exceptional understanding of Math.''"
proof -
  let ?r0 = "jsonObject [(''name'', JStr ''{topic}''), (''performance'', JNum (Fin 90)),
              (''subject'', JStr ''Math'')]"
  let ?r1 = "jsonObject [(''name'', JStr ''$&''), (''performance'', JNum (Fin 90)),
              (''subject'', JStr ''Math'')]"
  have v0: "validateStudentData (\<lambda>s. NaN) ?r0 = Inr \<lparr> isValid = True, errors = [] \<rparr>"
    by (rule validateStudentData_accepts [where n = "''{topic}''" and t = "''Math''" and p = 90])
       (simp_all add: readField_jsonObject getOwn_Cons getOwn_Nil)
  have v1: "validateStudentData (\<lambda>s. NaN) ?r1 = Inr \<lparr> isValid = True, errors = [] \<rparr>"
    by (rule validateStudentData_accepts [where n = "''$&''" and t = "''Math''" and p = 90])
       (simp_all add: readField_jsonObject getOwn_Cons getOwn_Nil)
  have s: "sanitizedObject ?r0 = ?r0" "sanitizedObject ?r1 = ?r1"
    by (simp_all add: sanitizedObject_def jsonObject_def keys_def getOwn_Cons getOwn_Nil
          setProperty_def hasOwn_Cons hasOwn_Nil sanitizeValue_def trim_def stripAngle_def
          isWhiteSpace_def)
  have f0: "map_sum id feedback
      (generateFeedback (\<lambda>s. NaN) (\<lambda>n. []) [] ?r0 (jsonObject []))
      = Inr ''Outstanding work! Math has demonstrated exceptional understanding of {topic}.''"
    by (simp add: generateFeedback_def Let_def feedbackData_def readField_jsonObject
          getOwn_Cons getOwn_Nil generateRecommendations_def
          generateDetailedRecommendations_def generateNextSteps_def hasEntries_simps
          assessPerformance_Fin getBaseTemplate_levels personalizeFeedback_four
          excellentTemplate_def replaceFirst_def)
  have f1: "map_sum id feedback
      (generateFeedback (\<lambda>s. NaN) (\<lambda>n. []) [] ?r1 (jsonObject []))
      = Inr ''Outstanding work! {student} has demonstrated exceptional understanding of Math.''"
    by (simp add: generateFeedback_def Let_def feedbackData_def readField_jsonObject
          getOwn_Cons getOwn_Nil generateRecommendations_def
          generateDetailedRecommendations_def generateNextSteps_def hasEntries_simps
          assessPerformance_Fin getBaseTemplate_levels personalizeFeedback_four
          excellentTemplate_def replaceFirst_def)
  have u: "hasUnresolvedPlaceholder
        ''Outstanding work! Math has demonstrated exceptional understanding of {topic}.''"
     "hasUnresolvedPlaceholder
        ''Outstanding work! {student} has demonstrated exceptional understanding of Math.''"
    by (simp_all add: hasUnresolvedPlaceholder_def placeholders_def includesStr_def)
  from v0 v1 s f0 f1 u show ?thesis by blast
qed

text \<open>
  On the other records the rendering is complete. For a record that \<open>JSON.parse\<close> built,
  with no own field \<open>__proto__\<close>, that passes validation and whose name, subject, weak
  areas and strengths hold no opening brace and no dollar sign, the feedback text of
  every result of \<open>generateFeedback\<close> on the sanitized record contains no placeholder.
\<close>

lemma valid_name_subject:
  assumes "validateStudentData S raw = Inr v" and "isValid v"
  shows "\<exists>n t. readField raw FName = JStr n \<and> readField raw FSubject = JStr t"
proof -
  obtain p where p: "toNumber S (readField raw FPerformance) = Inr p"
    using assms(1) by (cases "toNumber S (readField raw FPerformance)")
      (auto simp: validateStudentData_def Let_def split: if_splits)
  from validateStudentData_result [OF p] assms have e: "validationErrors raw p = []"
    by auto
  have n: "typeof (readField raw FName) = ''string''"
    using e unfolding validationErrors_def by (auto split: if_splits)
  have t: "typeof (readField raw FSubject) = ''string''"
    using e unfolding validationErrors_def by (auto split: if_splits)
  from n obtain a where "readField raw FName = JStr a"
    by (cases "readField raw FName") auto
  moreover from t obtain b where "readField raw FSubject = JStr b"
    by (cases "readField raw FSubject") auto
  ultimately show ?thesis by blast
qed

lemma readField_sanitizedObject:
  assumes "prototype raw = ObjectPrototype" and "\<not> hasOwn (ownFields raw) ''__proto__''"
  shows "readField (sanitizedObject raw) f = sanitizeValue (readField raw f)"
proof -
  have r: "readField ob f = getOwn (ownFields ob) (keyOf f)"
    if "prototype ob = ObjectPrototype" for ob
    using that by (simp add: readField_def getOwn_def split: option.splits)
  show ?thesis
    by (simp add: r assms(1) sanitizedObject_plain(1) [OF assms(2)]
          getOwn_sanitizedObject_plain [OF assms(2)])
qed

lemma plainValue_sanitizeValue: "plainValue v \<Longrightarrow> plainValue (sanitizeValue v)"
  by (cases v) (simp_all add: sanitizeValue_def plain_sanitized)

lemma generateFeedback_resolved:
  assumes valid: "validateStudentData S raw = Inr v" "isValid v"
    and json: "prototype raw = ObjectPrototype" "\<not> hasOwn (ownFields raw) ''__proto__''"
    and p: "plainValue (readField raw FName)" "plainValue (readField raw FSubject)"
           "plainValue (readField raw FWeakAreas)" "plainValue (readField raw FStrengths)"
    and r: "generateFeedback S N now (sanitizedObject raw) criteria = Inr r"
  shows "\<not> hasUnresolvedPlaceholder (feedback r)"
proof -
  let ?sd = "sanitizedObject raw"
  note rs = readField_sanitizedObject [OF json]
  obtain n t where n: "readField raw FName = JStr n" and t: "readField raw FSubject = JStr t"
    using valid_name_subject [OF valid] by blast
  define n' where "n' = stripAngle (trim n)"
  define t' where "t' = stripAngle (trim t)"
  have sn: "readField ?sd FName = JStr n'" and st: "readField ?sd FSubject = JStr t'"
    by (simp_all add: rs n t sanitizeValue_simps n'_def t'_def)
  have pn: "plain n'" and pt: "plain t'"
    using p(1,2) by (simp_all add: n t n'_def t'_def plain_sanitized)
  have pw: "plainValue (readField ?sd FWeakAreas)" and ps: "plainValue (readField ?sd FStrengths)"
    using p(3,4) by (simp_all add: rs plainValue_sanitizeValue)
  from generateFeedback_Inr [OF r] obtain tp d
    where l: "assessPerformance S (readField ?sd FPerformance) = Inr (performanceLevel r)"
      and tp: "getBaseTemplate (performanceLevel r) = TemplateText tp"
      and d: "feedbackData ?sd = Inr d"
      and fb: "personalizeFeedback N tp d = Inr (feedback r)"
    by blast
  from feedbackData_Inr [OF d] obtain j rc
    where j: "optJoin (readField ?sd FWeakAreas) '', '' = Inr j"
      and rc: "generateRecommendations (readField ?sd FWeakAreas) (readField ?sd FStrengths)
                 = Inr rc"
      and d': "d = [(''student'', JStr n'), (''topic'', JStr t'),
                    (''areas'', JStr (orDefault j ''general concepts'')),
                    (''recommendations'', JStr rc)]"
    unfolding sn st by blast
  have pa: "plain (orDefault j ''general concepts'')"
    by (rule optJoin_plain [OF j pw]) (simp_all add: plain_def)
  have prc: "plain rc"
    by (rule generateRecommendations_plain [OF rc pw ps])
  have four: "feedback r = replaceFirst (replaceFirst (replaceFirst (replaceFirst tp
       ''{student}'' n') ''{topic}'' t') ''{areas}'' (orDefault j ''general concepts''))
       ''{recommendations}'' rc"
    using fb unfolding d' by (simp add: personalizeFeedback_four)
  have "CHR ''{'' \<notin> set (feedback r)"
    using assessPerformance_cases [OF l]
  proof (elim disjE)
    assume "performanceLevel r = ''excellent''"
    with tp have "tp = excellentTemplate" by (simp add: getBaseTemplate_levels)
    then show ?thesis unfolding four using pn pt
      by (simp add: render_excellent plain_def)
  next
    assume "performanceLevel r = ''good''"
    with tp have "tp = goodTemplate" by (simp add: getBaseTemplate_levels)
    then show ?thesis unfolding four using pn pt pa
      by (simp add: render_good plain_def)
  next
    assume "performanceLevel r = ''needsImprovement''"
    with tp have "tp = needsImprovementTemplate" by (simp add: getBaseTemplate_levels)
    then show ?thesis unfolding four using pn pt prc
      by (simp add: render_needsImprovement plain_def)
  qed
  then show ?thesis by (rule no_brace_resolved)
qed

subsection \<open>The records of the test suite\<close>

lemma test_suite_results:
  "map_sum id feedback (generateFeedback S N now johnDoe c)
     = Inr ''Outstanding work! John Doe has demonstrated exceptional understanding of Mathematics.''"
  "map_sum id feedback (generateFeedback S N now janeSmith c)
     = Inr ''Good progress! Jane Smith shows solid grasp of Science with room for improvement in Lab procedures.''"
  "map_sum id feedback (generateFeedback S N now bobJohnson c)
     = Inr ''Bob Johnson needs additional support in English. Consider focusing on Focus on Grammar and Vocabulary while leveraging strengths in Creative writing.''"
  "map_sum id recommendations (generateFeedback S N now janeSmith c)
     = Inr [''Target improvement areas: Lab procedures'',
            ''Build upon strengths: Theory understanding'']"
  "map_sum id nextSteps (generateFeedback S N now bobJohnson c)
     = Inr [''Schedule additional support sessions'', ''Review fundamental concepts'',
            ''Focus specifically on: Grammar and Vocabulary'']"
  by (simp_all add: johnDoe_def janeSmith_def bobJohnson_def generateFeedback_def Let_def
        feedbackData_def readField_jsonObject getOwn_Cons getOwn_Nil
        generateRecommendations_def generateDetailedRecommendations_def
        generateNextSteps_def hasEntries_simps assessPerformance_Fin getBaseTemplate_levels
        personalizeFeedback_four excellentTemplate_def goodTemplate_def
        needsImprovementTemplate_def replaceFirst_def)

text \<open>
  The prototype that \<open>sanitizeInput\<close> installs from an own field \<open>__proto__\<close> reaches
  the engine: the record passes validation, which reads the parsed object, and the
  sanitized object inherits a weakAreas that ends up in the feedback text.
\<close>

lemma generateFeedback_inherited_weakAreas:
  "validateStudentData (\<lambda>s. NaN)
      (jsonObject [(''name'', JStr ''Ann''), (''performance'', JNum (Fin 75)),
                   (''subject'', JStr ''Math''),
                   (''__proto__'', JObj [(''weakAreas'', JArr [''{topic}''])])])
     = Inr \<lparr> isValid = True, errors = [] \<rparr>
   \<and> map_sum id feedback
        (generateFeedback (\<lambda>s. NaN) (\<lambda>n. []) []
           (sanitizedObject
              (jsonObject [(''name'', JStr ''Ann''), (''performance'', JNum (Fin 75)),
                           (''subject'', JStr ''Math''),
                           (''__proto__'', JObj [(''weakAreas'', JArr [''{topic}''])])]))
           (jsonObject []))
      = Inr ''Good progress! Ann shows solid grasp of Math with room for improvement in {topic}.''"
proof -
  let ?raw = "jsonObject [(''name'', JStr ''Ann''), (''performance'', JNum (Fin 75)),
                   (''subject'', JStr ''Math''),
                   (''__proto__'', JObj [(''weakAreas'', JArr [''{topic}''])])]"
  let ?sd = "\<lparr> ownFields = [(''name'', JStr ''Ann''), (''performance'', JNum (Fin 75)),
                             (''subject'', JStr ''Math'')],
               prototype = ObjectValue [(''weakAreas'', JArr [''{topic}''])] \<rparr>"
  have v: "validateStudentData (\<lambda>s. NaN) ?raw = Inr \<lparr> isValid = True, errors = [] \<rparr>"
    by (rule validateStudentData_accepts [where n = "''Ann''" and t = "''Math''" and p = 75])
       (simp_all add: readField_jsonObject getOwn_Cons getOwn_Nil)
  have s: "sanitizedObject ?raw = ?sd"
    by (simp add: sanitizedObject_def jsonObject_def keys_def getOwn_Cons getOwn_Nil
          setProperty_def hasOwn_Cons hasOwn_Nil sanitizeValue_def trim_def stripAngle_def
          isWhiteSpace_def)
  have f: "map_sum id feedback (generateFeedback (\<lambda>s. NaN) (\<lambda>n. []) [] ?sd (jsonObject []))
      = Inr ''Good progress! Ann shows solid grasp of Math with room for improvement in {topic}.''"
    by (simp add: generateFeedback_def Let_def feedbackData_def readField_def getOwn_Cons
          getOwn_Nil generateRecommendations_def generateDetailedRecommendations_def
          generateNextSteps_def hasEntries_simps assessPerformance_Fin getBaseTemplate_levels
          personalizeFeedback_four goodTemplate_def replaceFirst_def)
  from v s f show ?thesis by simp
qed

end
